theory Spec2Isabelle
  imports Complex_Main "HOL-Library.Char_ord" "HOL-Library.List_Lexorder"
begin

section \<open>Python strings\<close>

text \<open>
  Display names, error messages and input lines are Python \<open>str\<close> values. They are
  modelled as HOL strings, a character standing for the code point of its number; the
  operations below are the behaviour of the Python built-ins the scripts call
  (\<open>str.lower\<close>, \<open>in\<close>, \<open>str.strip\<close>) on the code points below 256.
  \<open>str.lower\<close> maps A to Z and the upper-case letters of the range 192 to 222 (all of
  it but the multiplication sign 215) to the letter 32 places on.
\<close>

definition lower_char :: "char \<Rightarrow> char" where
  "lower_char c =
     (let n = (of_char c :: nat)
      in if (65 \<le> n \<and> n \<le> 90) \<or> (192 \<le> n \<and> n \<le> 222 \<and> n \<noteq> 215)
         then char_of (n + 32) else c)"

definition str_lower :: "string \<Rightarrow> string" where
  "str_lower s = map lower_char s"

text \<open>\<open>needle in s\<close>: the needle occurs as a contiguous run of \<open>s\<close>.\<close>

fun str_contains :: "string \<Rightarrow> string \<Rightarrow> bool" where
  "str_contains needle [] = (needle = [])"
| "str_contains needle (c # cs) =
     (take (length needle) (c # cs) = needle \<or> str_contains needle cs)"

text \<open>
  \<open>str.strip\<close> removes the characters \<open>str.isspace\<close> accepts: below 256 these are
  9 to 13, 28 to 32, 133 (next line) and 160 (no-break space).
\<close>

definition is_space :: "char \<Rightarrow> bool" where
  "is_space c =
     (let n = (of_char c :: nat)
      in (9 \<le> n \<and> n \<le> 13) \<or> (28 \<le> n \<and> n \<le> 32) \<or> n = 133 \<or> n = 160)"

definition strip :: "string \<Rightarrow> string" where
  "strip s = rev (dropWhile is_space (rev (dropWhile is_space s)))"

definition is_digit :: "char \<Rightarrow> bool" where
  "is_digit c = (let n = (of_char c :: nat) in 48 \<le> n \<and> n \<le> 57)"

section \<open>The suffix pattern\<close>

text \<open>
  \<open>SUFFIX_PATTERN = re.compile(r"-\d{12}$")\<close>. A match at a position is a hyphen, twelve
  digits, and then the end of the string; Python's \<open>$\<close> also accepts the position just
  before a final newline. \<open>search\<close> scans the positions from the left and returns the
  first match; \<open>match.group()\<close> is the hyphen and the twelve digits.
\<close>

definition suffix_match_here :: "string \<Rightarrow> bool" where
  "suffix_match_here s =
     (13 \<le> length s \<and> hd s = CHR ''-'' \<and> list_all is_digit (take 12 (tl s)) \<and>
      (drop 13 s = [] \<or> drop 13 s = [CHR 0x0A]))"

fun SUFFIX_PATTERN_search :: "string \<Rightarrow> string option" where
  "SUFFIX_PATTERN_search [] = None"
| "SUFFIX_PATTERN_search (c # cs) =
     (if suffix_match_here (c # cs) then Some (take 13 (c # cs))
      else SUFFIX_PATTERN_search cs)"

section \<open>The billing service\<close>

text \<open>
  The exceptions the scripts distinguish. \<open>PermissionDenied\<close> and \<open>NotFound\<close> are the
  \<open>google.api_core.exceptions\<close> classes and carry the message; \<open>OtherException\<close> stands
  for any other subclass of \<open>Exception\<close>.
\<close>

datatype exn =
    PermissionDenied string
  | NotFound string
  | OtherException string
  | FileNotFoundError
  | CalledProcessError string
  | TimeoutExpired
  | IndexError
  | ValueError
  | EOFError

record billing_account =
  name :: string
  display_name :: string
  is_open :: bool

record project_billing_info =
  billing_account_name :: string
  billing_enabled :: bool

record datetime =
  year :: nat
  month :: nat
  day :: nat
  hour :: nat
  minute :: nat

text \<open>
  The console messages of the two linkers, one constructor for each \<open>print\<close> statement,
  in the order of the source (day one first). The day-one linker returns \<open>None\<close> on
  every path, so its messages are the only report of what it did.
\<close>

datatype message =
    EmptyProjectId            \<comment> \<open>Error: Cannot link project to billing. The provided Project ID is empty.\<close>
  | CheckingStatus            \<comment> \<open>Checking current billing status for project ...\<close>
  | AlreadyLinked             \<comment> \<open>Success: Project is already linked to the target billing account ...\<close>
  | LinkedToDifferent         \<comment> \<open>Project is currently linked to a different billing account: ...\<close>
  | NotLinkedYet              \<comment> \<open>Project is not currently linked to any billing account.\<close>
  | Proceeding                \<comment> \<open>Proceeding to link project to ...\<close>
  | LinkRequestSent           \<comment> \<open>Successfully sent link request.\<close>
  | UpdatePermissionDenied    \<comment> \<open>Error: Permission Denied. You may not have 'roles/billing.projectManager' ...\<close>
  | UpdateUnexpectedError     \<comment> \<open>An unexpected error occurred during the linking process: ...\<close>
  | NowVerifying              \<comment> \<open>Now, verifying that the billing link is active...\<close>
  | ConfirmedActive           \<comment> \<open>Success! Billing link for project ... is confirmed active.\<close>
  | AttemptNotActive nat nat  \<comment> \<open>Verification attempt i+1/max_retries: Link not active yet.\<close>
  | VerificationError         \<comment> \<open>An unexpected error occurred during verification: ...\<close>
  | WarningNotVerified nat    \<comment> \<open>Warning: Could not verify billing link was active after max_retries attempts.\<close>
  | Linking                   \<comment> \<open>Linking ... to project...\<close>
  | NeedBillingUserRole       \<comment> \<open>Permission denied. You may need 'Billing Account User' role. (and the message)\<close>
  | FailedToLink              \<comment> \<open>Failed to link: ...\<close>
  | VerifyingLink             \<comment> \<open>Verifying billing link...\<close>
  | VerifiedActive            \<comment> \<open>Billing verified active\<close>
  | CouldNotVerify            \<comment> \<open>Could not verify billing link (may still be propagating)\<close>

text \<open>
  Everything a run does to the outside is recorded, in order, in a trace: the calls to
  the billing client (an update with its outcome, \<open>None\<close> for success), the \<open>gcloud\<close>
  invocation, the sleeps with their duration, and the messages of the linker.
  The day-one script multiplies its delay by the float \<open>1.5\<close>; every delay it reaches
  is a dyadic fraction that a float holds exactly, so durations are rationals.
\<close>

datatype event =
    ListBillingAccounts
  | ListProjectBillingInfo string
  | GetProjectBillingInfo string
  | UpdateProjectBillingInfo string string "exn option"
  | UpdateBillingAccount string string "exn option"
  | GcloudServicesEnable string
  | Sleep rat
  | Print message

type_synonym trace = "event list"

text \<open>\<open>~/project_id.txt\<close>: absent, failing to open or read, or holding a text.\<close>

datatype file_state = FileMissing | FileError exn | FileContent string

text \<open>
  The remote service, the \<open>gcloud\<close> tool and the clock are not part of the scripts. They
  are a parameter: each answer may depend on everything that happened before the call,
  so an environment can answer the same request differently over time (propagation
  delays, transient failures). A listing is the fully iterated pager.
\<close>

record env =
  list_billing_accounts :: "trace \<Rightarrow> exn + billing_account list"
  list_project_billing_info :: "trace \<Rightarrow> string \<Rightarrow> exn + project_billing_info list"
  get_project_billing_info :: "trace \<Rightarrow> string \<Rightarrow> exn + project_billing_info"
  update_project_billing_info :: "trace \<Rightarrow> string \<Rightarrow> string \<Rightarrow> exn option"
  update_billing_account :: "trace \<Rightarrow> string \<Rightarrow> string \<Rightarrow> exn option"
  gcloud_services_enable :: "trace \<Rightarrow> string \<Rightarrow> exn option"
  datetime_now :: "trace \<Rightarrow> datetime"
  project_file :: file_state

section \<open>Counting linked projects\<close>

text \<open>
  The loop of \<open>get_linked_project_count\<close>: \<open>count += 1\<close>, then \<open>break\<close> as soon as
  \<open>count > 0\<close>.
\<close>

fun count_loop :: "'a list \<Rightarrow> int \<Rightarrow> int" where
  "count_loop [] count = count"
| "count_loop (p # ps) count =
     (let count' = count + 1 in if count' > 0 then count' else count_loop ps count')"

definition get_linked_project_count :: "env \<Rightarrow> billing_account \<Rightarrow> trace \<Rightarrow> int \<times> trace" where
  "get_linked_project_count client billing_account tr =
     (case list_project_billing_info client tr (name billing_account) of
        Inr projects \<Rightarrow> (count_loop projects 0, tr @ [ListProjectBillingInfo (name billing_account)])
      | Inl e \<Rightarrow> (- 1, tr @ [ListProjectBillingInfo (name billing_account)]))"

section \<open>Selecting an account\<close>

text \<open>
  \<open>list.sort(key=..., reverse=True)\<close> is stable: elements with equal keys keep their
  order. CPython obtains this by reversing the list, sorting it stably in ascending
  order, and reversing the result.
\<close>

definition sort_reverse :: "('a \<Rightarrow> 'k::linorder) \<Rightarrow> 'a list \<Rightarrow> 'a list" where
  "sort_reverse key xs = rev (sort_key key (rev xs))"

fun unlinked_accounts :: "env \<Rightarrow> billing_account list \<Rightarrow> trace \<Rightarrow> billing_account list \<times> trace" where
  "unlinked_accounts client [] tr = ([], tr)"
| "unlinked_accounts client (account # rest) tr =
     (let (linked_count, tr1) = get_linked_project_count client account tr;
          (found, tr2) = unlinked_accounts client rest tr1
      in (if linked_count = 0 then account # found else found, tr2))"

fun tagged_accounts :: "billing_account list \<Rightarrow> (billing_account \<times> string) list" where
  "tagged_accounts [] = []"
| "tagged_accounts (account # rest) =
     (case SUFFIX_PATTERN_search (display_name account) of
        Some matched \<Rightarrow> (account, matched) # tagged_accounts rest
      | None \<Rightarrow> tagged_accounts rest)"

definition is_trial_name :: "billing_account \<Rightarrow> bool" where
  "is_trial_name a = str_contains ''trial billing account'' (str_lower (display_name a))"

definition find_best_billing_account ::
  "env \<Rightarrow> billing_account list \<Rightarrow> trace \<Rightarrow> (exn + billing_account) \<times> trace" where
  "find_best_billing_account client open_accounts tr =
     (let (unlinked, tr1) = unlinked_accounts client open_accounts tr in
      if unlinked \<noteq> [] then (Inr (hd (sort_reverse is_trial_name unlinked)), tr1)
      else
        let tagged = tagged_accounts open_accounts in
        if tagged \<noteq> [] then (Inr (fst (hd (sort_reverse snd tagged))), tr1)
        else (case open_accounts of
                [] \<Rightarrow> (Inl IndexError, tr1)
              | account # _ \<Rightarrow> (Inr account, tr1)))"

section \<open>Tagging an account\<close>

text \<open>
  \<open>datetime.now().strftime("-%Y%m%d%H%M")\<close>: the fields in fixed width, zero-padded
  (four digits for the year, two for the others), which is the decimal rendering for
  every date the clock can return.
\<close>

definition digit_char :: "nat \<Rightarrow> char" where
  "digit_char d = char_of (48 + d mod 10)"

definition pad2 :: "nat \<Rightarrow> string" where
  "pad2 n = [digit_char (n div 10), digit_char n]"

definition pad4 :: "nat \<Rightarrow> string" where
  "pad4 n = [digit_char (n div 1000), digit_char (n div 100), digit_char (n div 10), digit_char n]"

definition strftime_suffix :: "datetime \<Rightarrow> string" where
  "strftime_suffix d =
     CHR ''-'' # pad4 (year d) @ pad2 (month d) @ pad2 (day d) @ pad2 (hour d) @ pad2 (minute d)"

text \<open>
  \<open>tag_billing_account\<close> returns \<open>None\<close> and swallows every failure of the update, so
  the model returns the trace only.
\<close>

definition tag_billing_account :: "env \<Rightarrow> billing_account \<Rightarrow> trace \<Rightarrow> trace" where
  "tag_billing_account client account tr =
     (if SUFFIX_PATTERN_search (display_name account) \<noteq> None then tr
      else
        let suffix = strftime_suffix (datetime_now client tr);
            new_name = display_name account @ suffix
        in tr @ [UpdateBillingAccount (name account) new_name
                   (update_billing_account client tr (name account) new_name)])"

text \<open>
  The display name the service holds for an account after the events of a trace, given
  the one it held before them: a successful \<open>update_billing_account\<close> on the account's
  resource name replaces it.
\<close>

fun renamed_by :: "string \<Rightarrow> event \<Rightarrow> string \<Rightarrow> string" where
  "renamed_by n (UpdateBillingAccount n' new_name None) dn = (if n' = n then new_name else dn)"
| "renamed_by n ev dn = dn"

definition display_name_after :: "billing_account \<Rightarrow> trace \<Rightarrow> string" where
  "display_name_after account evs = fold (renamed_by (name account)) evs (display_name account)"

section \<open>Listing the billing accounts\<close>

text \<open>
  \<open>get_billing_accounts\<close> returns the list or one of three sentinel strings. The two
  scripts differ in the name of the first sentinel only.
\<close>

datatype accounts_result = AccountList "billing_account list" | Sentinel string

definition classify_listing_failure :: "string \<Rightarrow> exn \<Rightarrow> accounts_result" where
  "classify_listing_failure propagating e =
     (case e of
        PermissionDenied message \<Rightarrow>
          (let error_message = str_lower message in
           if str_contains ''api has not been used'' error_message
              \<or> str_contains ''service is disabled'' error_message
           then Sentinel propagating
           else Sentinel ''PERMISSION_DENIED'')
      | _ \<Rightarrow> Sentinel ''UNEXPECTED_ERROR'')"

definition dayone_get_billing_accounts :: "env \<Rightarrow> trace \<Rightarrow> accounts_result \<times> trace" where
  "dayone_get_billing_accounts client tr =
     (case list_billing_accounts client tr of
        Inr accounts \<Rightarrow> (AccountList accounts, tr @ [ListBillingAccounts])
      | Inl e \<Rightarrow>
          (classify_listing_failure ''API_DISABLED_OR_NO_PERMISSION'' e, tr @ [ListBillingAccounts]))"

definition daytwo_get_billing_accounts :: "env \<Rightarrow> trace \<Rightarrow> accounts_result \<times> trace" where
  "daytwo_get_billing_accounts client tr =
     (case list_billing_accounts client tr of
        Inr accounts \<Rightarrow> (AccountList accounts, tr @ [ListBillingAccounts])
      | Inl e \<Rightarrow>
          (classify_listing_failure ''API_DISABLED_OR_PROPAGATING'' e, tr @ [ListBillingAccounts]))"

section \<open>Linking and verifying\<close>

text \<open>The resource name of a project: \<open>f"projects/{project_id}"\<close>.\<close>

definition project_resource :: "string \<Rightarrow> string" where
  "project_resource project_id = ''projects/'' @ project_id"

definition link_confirmed :: "string \<Rightarrow> project_billing_info \<Rightarrow> bool" where
  "link_confirmed target info = (billing_account_name info = target \<and> billing_enabled info)"

text \<open>
  Day one. The verification loop \<open>for i in range(max_retries)\<close> runs over the list of
  the remaining indices; it sleeps after every attempt that did not confirm the link,
  and the warning follows the loop.
\<close>

fun dayone_verify :: "env \<Rightarrow> string \<Rightarrow> string \<Rightarrow> nat \<Rightarrow> rat \<Rightarrow> nat list \<Rightarrow> trace \<Rightarrow> trace" where
  "dayone_verify client project_name target max_retries wait_seconds [] tr =
     tr @ [Print (WarningNotVerified max_retries)]"
| "dayone_verify client project_name target max_retries wait_seconds (i # rest) tr =
     (case get_project_billing_info client tr project_name of
        Inr verified_info \<Rightarrow>
          if link_confirmed target verified_info
          then tr @ [GetProjectBillingInfo project_name, Print ConfirmedActive]
          else dayone_verify client project_name target max_retries wait_seconds rest
                 (tr @ [GetProjectBillingInfo project_name,
                        Print (AttemptNotActive (i + 1) max_retries), Sleep wait_seconds])
      | Inl e \<Rightarrow>
          dayone_verify client project_name target max_retries wait_seconds rest
            (tr @ [GetProjectBillingInfo project_name, Print VerificationError,
                   Sleep wait_seconds]))"

text \<open>The part of \<open>link_project_to_billing\<close> after the check of the current status.\<close>

definition dayone_update_and_verify :: "env \<Rightarrow> string \<Rightarrow> string \<Rightarrow> trace \<Rightarrow> trace" where
  "dayone_update_and_verify client project_name target tr =
     (let tr1 = tr @ [Print Proceeding];
          outcome = update_project_billing_info client tr1 project_name target;
          tr2 = tr1 @ [UpdateProjectBillingInfo project_name target outcome]
      in case outcome of
           None \<Rightarrow>
             dayone_verify client project_name target 6 10 [0..<6]
               (tr2 @ [Print LinkRequestSent, Print NowVerifying])
         | Some (PermissionDenied m) \<Rightarrow> tr2 @ [Print UpdatePermissionDenied]
         | Some e \<Rightarrow> tr2 @ [Print UpdateUnexpectedError])"

text \<open>
  \<open>link_project_to_billing\<close> returns \<open>None\<close> on every path. The check of the current
  status catches \<open>NotFound\<close> only: any other exception of that call leaves the function.
\<close>

definition link_project_to_billing ::
  "env \<Rightarrow> string \<Rightarrow> billing_account \<Rightarrow> trace \<Rightarrow> exn option \<times> trace" where
  "link_project_to_billing client target_project_id billing_account_info tr =
     (if target_project_id = [] then (None, tr @ [Print EmptyProjectId])
      else
        let project_name = project_resource target_project_id;
            target = name billing_account_info;
            tr1 = tr @ [Print CheckingStatus]
        in case get_project_billing_info client tr1 project_name of
             Inr current_billing_info \<Rightarrow>
               if billing_account_name current_billing_info = target
               then (None, tr1 @ [GetProjectBillingInfo project_name, Print AlreadyLinked])
               else if billing_enabled current_billing_info
               then (None, dayone_update_and_verify client project_name target
                             (tr1 @ [GetProjectBillingInfo project_name, Print LinkedToDifferent]))
               else (None, dayone_update_and_verify client project_name target
                             (tr1 @ [GetProjectBillingInfo project_name]))
           | Inl (NotFound m) \<Rightarrow>
               (None, dayone_update_and_verify client project_name target
                        (tr1 @ [GetProjectBillingInfo project_name, Print NotLinkedYet]))
           | Inl e \<Rightarrow> (Some e, tr1 @ [GetProjectBillingInfo project_name]))"

text \<open>
  Day two. The loop sleeps between attempts only (\<open>if i < max_retries - 1\<close>) and the
  function returns \<open>True\<close> after it.
\<close>

fun daytwo_verify :: "env \<Rightarrow> string \<Rightarrow> string \<Rightarrow> nat \<Rightarrow> rat \<Rightarrow> nat list \<Rightarrow> trace \<Rightarrow> bool \<times> trace" where
  "daytwo_verify client project_name target max_retries wait_seconds [] tr =
     (True, tr @ [Print CouldNotVerify])"
| "daytwo_verify client project_name target max_retries wait_seconds (i # rest) tr =
     (let tr1 = tr @ [GetProjectBillingInfo project_name];
          tr2 = (if i < max_retries - 1 then tr1 @ [Sleep wait_seconds] else tr1)
      in case get_project_billing_info client tr project_name of
           Inr info \<Rightarrow>
             if link_confirmed target info then (True, tr1 @ [Print VerifiedActive])
             else daytwo_verify client project_name target max_retries wait_seconds rest tr2
         | Inl e \<Rightarrow>
             daytwo_verify client project_name target max_retries wait_seconds rest tr2)"

definition link_billing_account ::
  "env \<Rightarrow> string \<Rightarrow> billing_account \<Rightarrow> trace \<Rightarrow> bool \<times> trace" where
  "link_billing_account client project_id billing_account tr =
     (let project_name = project_resource project_id;
          target = name billing_account;
          tr1 = tr @ [Print Linking];
          outcome = update_project_billing_info client tr1 project_name target;
          tr2 = tr1 @ [UpdateProjectBillingInfo project_name target outcome]
      in case outcome of
           None \<Rightarrow> daytwo_verify client project_name target 6 10 [0..<6] (tr2 @ [Print VerifyingLink])
         | Some (PermissionDenied m) \<Rightarrow> (False, tr2 @ [Print NeedBillingUserRole])
         | Some e \<Rightarrow> (False, tr2 @ [Print FailedToLink]))"

text \<open>Day two only: \<open>check_current_billing\<close> returns \<open>(is_enabled, account_name)\<close>.\<close>

definition check_current_billing ::
  "env \<Rightarrow> string \<Rightarrow> trace \<Rightarrow> (bool \<times> string option) \<times> trace" where
  "check_current_billing client project_id tr =
     (let project_name = project_resource project_id in
      case get_project_billing_info client tr project_name of
        Inr info \<Rightarrow>
          if billing_enabled info
          then ((True, Some (billing_account_name info)), tr @ [GetProjectBillingInfo project_name])
          else ((False, None), tr @ [GetProjectBillingInfo project_name])
      | Inl (NotFound m) \<Rightarrow> ((False, None), tr @ [GetProjectBillingInfo project_name])
      | Inl e \<Rightarrow> ((False, None), tr @ [GetProjectBillingInfo project_name]))"

section \<open>The project id and the billing API\<close>

text \<open>
  Day one: \<open>get_project_id_from_file\<close> returns \<open>None\<close> when the file is missing,
  unreadable or blank. Day two: \<open>get_project_id\<close> calls \<open>sys.exit(1)\<close> there
  (\<open>Inl\<close> is the exit status).
\<close>

definition get_project_id_from_file :: "env \<Rightarrow> string option" where
  "get_project_id_from_file client =
     (case project_file client of
        FileMissing \<Rightarrow> None
      | FileError e \<Rightarrow> None
      | FileContent text \<Rightarrow>
          (let project_id = strip text in if project_id = [] then None else Some project_id))"

definition get_project_id :: "env \<Rightarrow> int + string" where
  "get_project_id client =
     (case project_file client of
        FileMissing \<Rightarrow> Inl 1
      | FileError e \<Rightarrow> Inl 1
      | FileContent text \<Rightarrow>
          (let project_id = strip text in if project_id = [] then Inl 1 else Inr project_id))"

text \<open>
  \<open>enable_billing_api\<close> runs \<open>gcloud services enable cloudbilling.googleapis.com\<close>.
  Day one catches \<open>FileNotFoundError\<close> and \<open>CalledProcessError\<close>; day two sets a
  timeout and catches \<open>TimeoutExpired\<close> too. Anything else leaves the function.
\<close>

definition dayone_enable_billing_api :: "env \<Rightarrow> string \<Rightarrow> trace \<Rightarrow> (exn + bool) \<times> trace" where
  "dayone_enable_billing_api client project_id tr =
     (case gcloud_services_enable client tr project_id of
        None \<Rightarrow> (Inr True, tr @ [GcloudServicesEnable project_id])
      | Some FileNotFoundError \<Rightarrow> (Inr False, tr @ [GcloudServicesEnable project_id])
      | Some (CalledProcessError err) \<Rightarrow> (Inr False, tr @ [GcloudServicesEnable project_id])
      | Some e \<Rightarrow> (Inl e, tr @ [GcloudServicesEnable project_id]))"

definition daytwo_enable_billing_api :: "env \<Rightarrow> string \<Rightarrow> trace \<Rightarrow> (exn + bool) \<times> trace" where
  "daytwo_enable_billing_api client project_id tr =
     (case gcloud_services_enable client tr project_id of
        None \<Rightarrow> (Inr True, tr @ [GcloudServicesEnable project_id])
      | Some FileNotFoundError \<Rightarrow> (Inr False, tr @ [GcloudServicesEnable project_id])
      | Some (CalledProcessError err) \<Rightarrow> (Inr False, tr @ [GcloudServicesEnable project_id])
      | Some TimeoutExpired \<Rightarrow> (Inr False, tr @ [GcloudServicesEnable project_id])
      | Some e \<Rightarrow> (Inl e, tr @ [GcloudServicesEnable project_id]))"

section \<open>Reading a choice\<close>

text \<open>
  \<open>int(choice)\<close> on a stripped line: an optional sign and decimal digits, single
  underscores allowed between digits; \<open>None\<close> is \<open>ValueError\<close>.
\<close>

fun parse_digits :: "string \<Rightarrow> bool \<Rightarrow> nat \<Rightarrow> nat option" where
  "parse_digits [] after_digit acc = (if after_digit then Some acc else None)"
| "parse_digits (c # cs) after_digit acc =
     (if is_digit c then parse_digits cs True (acc * 10 + (of_char c - 48))
      else if c = CHR ''_'' \<and> after_digit \<and> cs \<noteq> [] \<and> is_digit (hd cs)
      then parse_digits cs False acc
      else None)"

definition py_int :: "string \<Rightarrow> int option" where
  "py_int s =
     (case strip s of
        [] \<Rightarrow> None
      | c # cs \<Rightarrow>
          if c = CHR ''-'' then map_option (\<lambda>n. - int n) (parse_digits cs False 0)
          else if c = CHR ''+'' then map_option int (parse_digits cs False 0)
          else map_option int (parse_digits (c # cs) False 0))"

section \<open>How a run ends\<close>

text \<open>
  A script that reaches its end exits with status 0; \<open>sys.exit(n)\<close> exits with \<open>n\<close>
  (day two ends with \<open>sys.exit(main())\<close>, so the value \<open>main\<close> returns is the
  status); an exception nobody catches prints a traceback and exits with status 1.
\<close>

datatype outcome = EndOfScript | Return int | SysExit int | Uncaught exn

fun exit_code :: "outcome \<Rightarrow> int" where
  "exit_code EndOfScript = 0"
| "exit_code (Return n) = n"
| "exit_code (SysExit n) = n"
| "exit_code (Uncaught e) = 1"

section \<open>The day-one script\<close>

text \<open>
  The retry loop after enabling the API: \<open>for i in range(max_retries)\<close> with
  \<open>wait_seconds *= 1.5\<close> after each attempt that still finds the API disabled.
\<close>

fun dayone_retry_listing ::
  "env \<Rightarrow> nat list \<Rightarrow> rat \<Rightarrow> accounts_result \<Rightarrow> trace \<Rightarrow> accounts_result \<times> trace" where
  "dayone_retry_listing client [] wait_seconds accounts_result tr = (accounts_result, tr)"
| "dayone_retry_listing client (i # rest) wait_seconds accounts_result tr =
     (let (accounts_result', tr1) = dayone_get_billing_accounts client (tr @ [Sleep wait_seconds])
      in if accounts_result' \<noteq> Sentinel ''API_DISABLED_OR_NO_PERMISSION''
         then (accounts_result', tr1)
         else dayone_retry_listing client rest (wait_seconds * (3 / 2)) accounts_result' tr1)"

text \<open>The wait for the credit to appear: up to six listings, 20 seconds apart.\<close>

fun dayone_wait_for_accounts ::
  "env \<Rightarrow> nat list \<Rightarrow> accounts_result \<Rightarrow> trace \<Rightarrow> accounts_result \<times> trace" where
  "dayone_wait_for_accounts client [] accounts_result tr = (accounts_result, tr)"
| "dayone_wait_for_accounts client (i # rest) accounts_result tr =
     (let (accounts_result', tr1) = dayone_get_billing_accounts client (tr @ [Sleep 20])
      in case accounts_result' of
           AccountList (a # as) \<Rightarrow> (accounts_result', tr1)
         | _ \<Rightarrow> dayone_wait_for_accounts client rest accounts_result' tr1)"

definition dayone_link_and_tag ::
  "env \<Rightarrow> string \<Rightarrow> billing_account \<Rightarrow> trace \<Rightarrow> exn option \<times> trace" where
  "dayone_link_and_tag client project_id target_account tr =
     (case link_project_to_billing client project_id target_account tr of
        (Some e, tr1) \<Rightarrow> (Some e, tr1)
      | (None, tr1) \<Rightarrow> (None, tag_billing_account client target_account tr1))"

text \<open>
  The manual fallback reads one line. \<open>ValueError\<close> and \<open>EOFError\<close> raised anywhere in
  its \<open>try\<close> block, the second link included, are caught and ignored.
\<close>

fun except_ValueError_EOFError :: "exn option \<times> trace \<Rightarrow> exn option \<times> trace" where
  "except_ValueError_EOFError (Some ValueError, tr) = (None, tr)"
| "except_ValueError_EOFError (Some EOFError, tr) = (None, tr)"
| "except_ValueError_EOFError (raised, tr) = (raised, tr)"

definition dayone_manual_fallback ::
  "env \<Rightarrow> string \<Rightarrow> billing_account list \<Rightarrow> string list \<Rightarrow> trace \<Rightarrow> exn option \<times> trace" where
  "dayone_manual_fallback client project_id open_accounts stdin tr =
     (case stdin of
        [] \<Rightarrow> (None, tr)
      | line # _ \<Rightarrow>
          let choice = strip line in
          if choice = [] then (None, tr)
          else (case py_int choice of
                  None \<Rightarrow> (None, tr)
                | Some n \<Rightarrow>
                    let idx = n - 1 in
                    if 0 \<le> idx \<and> idx < int (length open_accounts)
                    then except_ValueError_EOFError
                           (dayone_link_and_tag client project_id (open_accounts ! nat idx) tr)
                    else (None, tr)))"

definition dayone_handle_result ::
  "env \<Rightarrow> string \<Rightarrow> string list \<Rightarrow> accounts_result \<Rightarrow> trace \<Rightarrow> exn option \<times> trace" where
  "dayone_handle_result client project_id stdin accounts_result tr =
     (case accounts_result of
        AccountList accounts \<Rightarrow>
          if accounts = [] then (None, tr)
          else
            let open_accounts = filter is_open accounts in
            if open_accounts = [] then (None, tr)
            else if length open_accounts = 1
            then dayone_link_and_tag client project_id (hd open_accounts) tr
            else (case find_best_billing_account client open_accounts tr of
                    (Inl e, tr1) \<Rightarrow> (Some e, tr1)
                  | (Inr target_account, tr1) \<Rightarrow>
                      (case dayone_link_and_tag client project_id target_account tr1 of
                         (Some e, tr2) \<Rightarrow> (Some e, tr2)
                       | (None, tr2) \<Rightarrow>
                           dayone_manual_fallback client project_id open_accounts stdin tr2))
      | Sentinel s \<Rightarrow> (None, tr))"

definition dayone_after_listing ::
  "env \<Rightarrow> string \<Rightarrow> string list \<Rightarrow> accounts_result \<Rightarrow> trace \<Rightarrow> exn option \<times> trace" where
  "dayone_after_listing client project_id stdin accounts_result tr =
     (let (accounts_result', tr1) =
            (if accounts_result = AccountList []
             then dayone_wait_for_accounts client [0..<6] accounts_result tr
             else (accounts_result, tr))
      in dayone_handle_result client project_id stdin accounts_result' tr1)"

definition dayone_main :: "env \<Rightarrow> string list \<Rightarrow> trace \<Rightarrow> outcome \<times> trace" where
  "dayone_main client stdin tr =
     (case get_project_id_from_file client of
        None \<Rightarrow> (EndOfScript, tr)
      | Some project_id \<Rightarrow>
          let (accounts_result, tr1) = dayone_get_billing_accounts client tr;
              (raised, tr3) =
                (if accounts_result = Sentinel ''API_DISABLED_OR_NO_PERMISSION''
                 then (case dayone_enable_billing_api client project_id tr1 of
                         (Inl e, tr2) \<Rightarrow> (Some e, tr2)
                       | (Inr enabled, tr2) \<Rightarrow>
                           if enabled
                           then (let (accounts_result', tr') =
                                       dayone_retry_listing client [0..<5] 15 accounts_result tr2
                                 in dayone_after_listing client project_id stdin accounts_result' tr')
                           else dayone_after_listing client project_id stdin accounts_result tr2)
                 else dayone_after_listing client project_id stdin accounts_result tr1)
          in (case raised of None \<Rightarrow> (EndOfScript, tr3) | Some e \<Rightarrow> (Uncaught e, tr3)))"

section \<open>The day-two script\<close>

text \<open>
  The retry loop after enabling the API: \<open>wait_seconds = int(wait_seconds * 1.5)\<close>
  after each attempt that still finds the API disabled; the delay stays an integer.
\<close>

fun daytwo_retry_listing ::
  "env \<Rightarrow> nat list \<Rightarrow> nat \<Rightarrow> accounts_result \<Rightarrow> trace \<Rightarrow> accounts_result \<times> trace" where
  "daytwo_retry_listing client [] wait_seconds accounts_result tr = (accounts_result, tr)"
| "daytwo_retry_listing client (i # rest) wait_seconds accounts_result tr =
     (let (accounts_result', tr1) =
            daytwo_get_billing_accounts client (tr @ [Sleep (of_nat wait_seconds)])
      in if accounts_result' \<noteq> Sentinel ''API_DISABLED_OR_PROPAGATING''
         then (accounts_result', tr1)
         else daytwo_retry_listing client rest (wait_seconds * 3 div 2) accounts_result' tr1)"

fun daytwo_wait_for_accounts ::
  "env \<Rightarrow> nat list \<Rightarrow> accounts_result \<Rightarrow> trace \<Rightarrow> accounts_result \<times> trace" where
  "daytwo_wait_for_accounts client [] accounts_result tr = (accounts_result, tr)"
| "daytwo_wait_for_accounts client (i # rest) accounts_result tr =
     (let (accounts_result', tr1) = daytwo_get_billing_accounts client (tr @ [Sleep 20])
      in case accounts_result' of
           AccountList (a # as) \<Rightarrow> (accounts_result', tr1)
         | _ \<Rightarrow> daytwo_wait_for_accounts client rest accounts_result' tr1)"

text \<open>
  \<open>if link_billing_account(...): tag_billing_account(...); return 0\<close>; \<open>None\<close> when the
  link failed and the flow goes on.
\<close>

definition daytwo_link_and_tag ::
  "env \<Rightarrow> string \<Rightarrow> billing_account \<Rightarrow> trace \<Rightarrow> int option \<times> trace" where
  "daytwo_link_and_tag client project_id account tr =
     (let (linked, tr1) = link_billing_account client project_id account tr in
      if linked then (Some 0, tag_billing_account client account tr1) else (None, tr1))"

text \<open>
  The manual selection loops until a line holds a number in range. \<open>ValueError\<close> is
  caught; the \<open>EOFError\<close> of \<open>input\<close> at the end of the input is not.
\<close>

fun daytwo_select :: "billing_account list \<Rightarrow> string list \<Rightarrow> exn + nat" where
  "daytwo_select open_accounts [] = Inl EOFError"
| "daytwo_select open_accounts (line # rest) =
     (let choice = strip line in
      if choice = [] then daytwo_select open_accounts rest
      else case py_int choice of
             None \<Rightarrow> daytwo_select open_accounts rest
           | Some n \<Rightarrow>
               let index = n - 1 in
               if 0 \<le> index \<and> index < int (length open_accounts) then Inr (nat index)
               else daytwo_select open_accounts rest)"

definition daytwo_handle_result ::
  "env \<Rightarrow> string \<Rightarrow> string list \<Rightarrow> accounts_result \<Rightarrow> trace \<Rightarrow> outcome \<times> trace" where
  "daytwo_handle_result client project_id stdin accounts_result tr =
     (case accounts_result of
        AccountList accounts \<Rightarrow>
          if accounts = [] then (Return 1, tr)
          else
            let open_accounts = filter is_open accounts in
            if open_accounts = [] then (Return 1, tr)
            else if length open_accounts = 1
            then (case daytwo_link_and_tag client project_id (hd open_accounts) tr of
                    (Some code, tr1) \<Rightarrow> (Return code, tr1)
                  | (None, tr1) \<Rightarrow> (Return 1, tr1))
            else (case find_best_billing_account client open_accounts tr of
                    (Inl e, tr1) \<Rightarrow> (Uncaught e, tr1)
                  | (Inr account, tr1) \<Rightarrow>
                      (case daytwo_link_and_tag client project_id account tr1 of
                         (Some code, tr2) \<Rightarrow> (Return code, tr2)
                       | (None, tr2) \<Rightarrow>
                           (case daytwo_select open_accounts stdin of
                              Inl e \<Rightarrow> (Uncaught e, tr2)
                            | Inr index \<Rightarrow>
                                (case daytwo_link_and_tag client project_id
                                        (open_accounts ! index) tr2 of
                                   (Some code, tr3) \<Rightarrow> (Return code, tr3)
                                 | (None, tr3) \<Rightarrow> (Return 1, tr3)))))
      | Sentinel s \<Rightarrow> (Return 1, tr))"

definition daytwo_after_listing ::
  "env \<Rightarrow> string \<Rightarrow> string list \<Rightarrow> accounts_result \<Rightarrow> trace \<Rightarrow> outcome \<times> trace" where
  "daytwo_after_listing client project_id stdin accounts_result tr =
     (let (accounts_result', tr1) =
            (if accounts_result = AccountList []
             then daytwo_wait_for_accounts client [0..<6] accounts_result tr
             else (accounts_result, tr))
      in daytwo_handle_result client project_id stdin accounts_result' tr1)"

text \<open>The part of \<open>main\<close> after \<open>check_current_billing\<close> found billing not enabled.\<close>

definition daytwo_search_and_link ::
  "env \<Rightarrow> string \<Rightarrow> string list \<Rightarrow> trace \<Rightarrow> outcome \<times> trace" where
  "daytwo_search_and_link client project_id stdin tr =
     (let (accounts_result, tr1) = daytwo_get_billing_accounts client tr in
      if accounts_result = Sentinel ''API_DISABLED_OR_PROPAGATING''
      then (case daytwo_enable_billing_api client project_id tr1 of
              (Inl e, tr2) \<Rightarrow> (Uncaught e, tr2)
            | (Inr enabled, tr2) \<Rightarrow>
                if \<not> enabled then (Return 1, tr2)
                else (let (accounts_result', tr') =
                            daytwo_retry_listing client [0..<5] 15 accounts_result tr2
                      in daytwo_after_listing client project_id stdin accounts_result' tr'))
      else daytwo_after_listing client project_id stdin accounts_result tr1)"

definition daytwo_main :: "env \<Rightarrow> string list \<Rightarrow> trace \<Rightarrow> outcome \<times> trace" where
  "daytwo_main client stdin tr =
     (case get_project_id client of
        Inl code \<Rightarrow> (SysExit code, tr)
      | Inr project_id \<Rightarrow>
          let ((is_enabled, current_account), tr1) = check_current_billing client project_id tr in
          if is_enabled then (Return 0, tr1)
          else daytwo_search_and_link client project_id stdin tr1)"

section \<open>Reading a trace\<close>

text \<open>The durations of the sleeps of a trace, in order.\<close>

fun sleeps :: "trace \<Rightarrow> rat list" where
  "sleeps [] = []"
| "sleeps (Sleep seconds # evs) = seconds # sleeps evs"
| "sleeps (ev # evs) = sleeps evs"

text \<open>
  Whether a lookup of the project's billing info, made after the trace \<open>tr\<close>, would
  confirm the link to the target account: it succeeds, names the target and reports
  billing enabled.
\<close>

definition attempt_confirms :: "env \<Rightarrow> trace \<Rightarrow> string \<Rightarrow> string \<Rightarrow> bool" where
  "attempt_confirms client tr project_name target =
     (case get_project_billing_info client tr project_name of
        Inr info \<Rightarrow> link_confirmed target info
      | Inl e \<Rightarrow> False)"

text \<open>
  Whether a listing of the billing accounts, made after the trace \<open>tr\<close>, would fail
  with a permission denial whose message reads as a disabled API.
\<close>

definition api_propagating :: "env \<Rightarrow> trace \<Rightarrow> bool" where
  "api_propagating client tr =
     (case list_billing_accounts client tr of
        Inl (PermissionDenied message) \<Rightarrow>
          str_contains ''api has not been used'' (str_lower message)
          \<or> str_contains ''service is disabled'' (str_lower message)
      | _ \<Rightarrow> False)"

text \<open>
  The delays of \<open>n\<close> retries that start at \<open>wait_seconds\<close>: each next delay is the
  previous one times 1.5 (day one), cut to an integer (day two).
\<close>

fun dayone_delays :: "nat \<Rightarrow> rat \<Rightarrow> rat list" where
  "dayone_delays 0 wait_seconds = []"
| "dayone_delays (Suc n) wait_seconds = wait_seconds # dayone_delays n (wait_seconds * (3 / 2))"

fun daytwo_delays :: "nat \<Rightarrow> nat \<Rightarrow> nat list" where
  "daytwo_delays 0 wait_seconds = []"
| "daytwo_delays (Suc n) wait_seconds = wait_seconds # daytwo_delays n (wait_seconds * 3 div 2)"

text \<open>Whether a trace holds an update of a project's billing info that was accepted.\<close>

fun is_accepted_update :: "event \<Rightarrow> bool" where
  "is_accepted_update (UpdateProjectBillingInfo project_name target None) = True"
| "is_accepted_update ev = False"

definition link_accepted :: "trace \<Rightarrow> bool" where
  "link_accepted tr = list_ex is_accepted_update tr"

text \<open>
  A result of the listing after which neither script calls the service again: a
  sentinel, or a list that is not empty and holds no open account.
\<close>

definition settled :: "accounts_result \<Rightarrow> bool" where
  "settled r =
     (case r of
        Sentinel s \<Rightarrow> True
      | AccountList accounts \<Rightarrow> accounts \<noteq> [] \<and> filter is_open accounts = [])"

section \<open>Example accounts and environments\<close>

text \<open>
  Concrete inputs on which the theorems below are exercised. \<open>base_client\<close> is a
  service on which every call succeeds: no billing accounts, no linked projects, a
  project without billing info.
\<close>

definition acct :: "string \<Rightarrow> string \<Rightarrow> billing_account" where
  "acct n dn = \<lparr>name = n, display_name = dn, is_open = True\<rparr>"

definition pbi :: "string \<Rightarrow> bool \<Rightarrow> project_billing_info" where
  "pbi n enabled = \<lparr>billing_account_name = n, billing_enabled = enabled\<rparr>"

definition base_client :: env where
  "base_client =
     \<lparr>list_billing_accounts = (\<lambda>tr. Inr []),
      list_project_billing_info = (\<lambda>tr n. Inr []),
      get_project_billing_info = (\<lambda>tr n. Inl (NotFound ''project has no billing info'')),
      update_project_billing_info = (\<lambda>tr p b. None),
      update_billing_account = (\<lambda>tr n dn. None),
      gcloud_services_enable = (\<lambda>tr p. None),
      datetime_now = (\<lambda>tr. \<lparr>year = 2026, month = 2, day = 18, hour = 15, minute = 30\<rparr>),
      project_file = FileContent (''my-project'' @ [CHR 0x0A])\<rparr>"

text \<open>
  Account A pays for two projects, accounts B and C for none, and the lookup for
  account D fails.
\<close>

definition linked_client :: env where
  "linked_client =
     base_client\<lparr>list_project_billing_info :=
       (\<lambda>tr n. if n = ''billingAccounts/A''
                then Inr [pbi ''billingAccounts/A'' True, pbi ''billingAccounts/A'' True]
                else if n = ''billingAccounts/D'' then Inl (OtherException ''deadline exceeded'')
                else Inr [])\<rparr>"

text \<open>The listing of billing accounts is refused because the API is still disabled.\<close>

definition disabled_api_client :: env where
  "disabled_api_client =
     base_client\<lparr>list_billing_accounts :=
       (\<lambda>tr. Inl (PermissionDenied ''Cloud Billing API has not been used in project 42 before or it is disabled.''))\<rparr>"

text \<open>Reading the billing info of the project fails with a server error.\<close>

definition unavailable_client :: env where
  "unavailable_client =
     base_client\<lparr>get_project_billing_info := (\<lambda>tr n. Inl (OtherException ''503 unavailable''))\<rparr>"

text \<open>
  Four open accounts in the state \<open>linked_client\<close> describes. D carries the trial name
  but its lookup fails; C and B are fresh, and B carries the trial name.
\<close>

definition workshop_accounts :: "billing_account list" where
  "workshop_accounts =
     [acct ''billingAccounts/A'' ''Main'',
      acct ''billingAccounts/D'' ''Old Trial Billing Account'',
      acct ''billingAccounts/C'' ''Other'',
      acct ''billingAccounts/B'' ''Free Trial Billing Account'']"

definition workshop_linked :: "billing_account \<Rightarrow> int" where
  "workshop_linked a =
     (if name a = ''billingAccounts/A'' then 1
      else if name a = ''billingAccounts/D'' then - 1 else 0)"

text \<open>Every account already pays for a project; two accounts carry a date suffix.\<close>

definition busy_client :: env where
  "busy_client = base_client\<lparr>list_project_billing_info := (\<lambda>tr n. Inr [pbi n True])\<rparr>"

definition tagged_example_accounts :: "billing_account list" where
  "tagged_example_accounts =
     [acct ''billingAccounts/P'' ''Plain'',
      acct ''billingAccounts/X1'' ''X-202501010000'',
      acct ''billingAccounts/X2'' ''X-202602020000'']"

text \<open>The first attempt to rename an account is refused, later ones succeed.\<close>

definition flaky_tag_client :: env where
  "flaky_tag_client =
     base_client\<lparr>update_billing_account :=
       (\<lambda>tr n dn. if tr = [] then Some (PermissionDenied ''billing.accounts.update denied'')
                   else None)\<rparr>"

text \<open>The project is linked to account B already, with billing enabled.\<close>

definition already_linked_client :: env where
  "already_linked_client =
     base_client\<lparr>get_project_billing_info := (\<lambda>tr n. Inr (pbi ''billingAccounts/B'' True))\<rparr>"

text \<open>Updates are accepted, but the project never shows a billing account.\<close>

definition never_active_client :: env where
  "never_active_client =
     base_client\<lparr>get_project_billing_info := (\<lambda>tr n. Inr (pbi [] False))\<rparr>"

text \<open>\<open>~/project_id.txt\<close> does not exist.\<close>

definition missing_file_client :: env where
  "missing_file_client = base_client\<lparr>project_file := FileMissing\<rparr>"

text \<open>
  The API reads as disabled for the first three listings of a run; after that the
  listing shows one account, which is closed.
\<close>

definition late_api_client :: env where
  "late_api_client =
     base_client\<lparr>list_billing_accounts :=
       (\<lambda>tr. if count_list tr ListBillingAccounts < 3
             then Inl (PermissionDenied ''Cloud Billing API has not been used in project 42 before or it is disabled.'')
             else Inr [\<lparr>name = ''billingAccounts/Z'', display_name = ''Closed'', is_open = False\<rparr>])\<rparr>"

section \<open>Strings: what the substring test decides\<close>

lemma str_contains_iff: "str_contains n s \<longleftrightarrow> (\<exists>ps ss. s = ps @ n @ ss)"
proof (induction s)
  case Nil
  show ?case by auto
next
  case (Cons c cs)
  show ?case
  proof
    assume "str_contains n (c # cs)"
    then consider "take (length n) (c # cs) = n" | "str_contains n cs" by auto
    then show "\<exists>ps ss. c # cs = ps @ n @ ss"
    proof cases
      case 1
      then have "c # cs = [] @ n @ drop (length n) (c # cs)"
        by (metis append_Nil append_take_drop_id)
      then show ?thesis by blast
    next
      case 2
      then obtain ps ss where "cs = ps @ n @ ss" using Cons.IH by blast
      then have "c # cs = (c # ps) @ n @ ss" by simp
      then show ?thesis by blast
    qed
  next
    assume "\<exists>ps ss. c # cs = ps @ n @ ss"
    then obtain ps ss where eq: "c # cs = ps @ n @ ss" by blast
    show "str_contains n (c # cs)"
    proof (cases ps)
      case Nil
      then have "take (length n) (c # cs) = n" using eq by simp
      then show ?thesis by simp
    next
      case (Cons p ps')
      then have "cs = ps' @ n @ ss" using eq by simp
      then show ?thesis using Cons.IH by auto
    qed
  qed
qed

section \<open>Counting linked projects\<close>

lemma count_loop_cases: "count_loop ps 0 = (if ps = [] then 0 else 1)"
  by (cases ps) simp_all

lemma linked_count_cases:
  "fst (get_linked_project_count client a tr) =
     (case list_project_billing_info client tr (name a) of
        Inl e \<Rightarrow> - 1
      | Inr ps \<Rightarrow> if ps = [] then 0 else 1)"
  by (auto simp: get_linked_project_count_def count_loop_cases split: sum.splits)

text \<open>
  Claim C9. \<open>get_linked_project_count\<close> returns -1 exactly when the lookup fails, 0
  exactly when the account has no linked project, and 1 otherwise: the loop stops
  after the first project, so with more than one linked project the result is 1 and
  not the number of projects.
\<close>

theorem get_linked_project_count_three_values:
  "fst (get_linked_project_count client billing_account tr) \<in> {- 1, 0, 1}
   \<and> (fst (get_linked_project_count client billing_account tr) = - 1
        \<longleftrightarrow> (\<exists>e. list_project_billing_info client tr (name billing_account) = Inl e))
   \<and> (fst (get_linked_project_count client billing_account tr) = 0
        \<longleftrightarrow> list_project_billing_info client tr (name billing_account) = Inr [])
   \<and> (\<forall>projects. list_project_billing_info client tr (name billing_account) = Inr projects
          \<longrightarrow> 1 < length projects
          \<longrightarrow> fst (get_linked_project_count client billing_account tr) = 1
              \<and> fst (get_linked_project_count client billing_account tr) \<noteq> int (length projects))"
  by (auto simp: linked_count_cases split: sum.splits)

theorem get_linked_project_count_three_values_witness:
  "list_project_billing_info linked_client [] (name (acct ''billingAccounts/A'' ''Main''))
     = Inr [pbi ''billingAccounts/A'' True, pbi ''billingAccounts/A'' True]
   \<and> fst (get_linked_project_count linked_client (acct ''billingAccounts/A'' ''Main'') []) = 1
   \<and> fst (get_linked_project_count linked_client (acct ''billingAccounts/D'' ''Broken'') []) = - 1
   \<and> fst (get_linked_project_count linked_client (acct ''billingAccounts/B'' ''Fresh'') []) = 0"
  using get_linked_project_count_three_values
          [of linked_client "acct ''billingAccounts/A'' ''Main''" "[]"]
        get_linked_project_count_three_values
          [of linked_client "acct ''billingAccounts/D'' ''Broken''" "[]"]
        get_linked_project_count_three_values
          [of linked_client "acct ''billingAccounts/B'' ''Fresh''" "[]"]
  by (simp add: linked_client_def base_client_def acct_def)

section \<open>Classifying a failed listing\<close>

text \<open>
  Claim C5. When the listing of billing accounts fails, \<open>get_billing_accounts\<close> looks
  at the exception: a permission denial whose lower-cased message contains
  "api has not been used" or "service is disabled" gives the propagating-API sentinel
  of the variant, any other permission denial gives PERMISSION_DENIED, and any other
  exception gives UNEXPECTED_ERROR. The trace gains the listing call only.
\<close>

theorem get_billing_accounts_classification:
  assumes "list_billing_accounts client tr = Inl e"
  shows "dayone_get_billing_accounts client tr =
           ((case e of
               PermissionDenied message \<Rightarrow>
                 if (\<exists>ps ss. str_lower message = ps @ ''api has not been used'' @ ss)
                    \<or> (\<exists>ps ss. str_lower message = ps @ ''service is disabled'' @ ss)
                 then Sentinel ''API_DISABLED_OR_NO_PERMISSION''
                 else Sentinel ''PERMISSION_DENIED''
             | _ \<Rightarrow> Sentinel ''UNEXPECTED_ERROR''), tr @ [ListBillingAccounts])
         \<and> daytwo_get_billing_accounts client tr =
           ((case e of
               PermissionDenied message \<Rightarrow>
                 if (\<exists>ps ss. str_lower message = ps @ ''api has not been used'' @ ss)
                    \<or> (\<exists>ps ss. str_lower message = ps @ ''service is disabled'' @ ss)
                 then Sentinel ''API_DISABLED_OR_PROPAGATING''
                 else Sentinel ''PERMISSION_DENIED''
             | _ \<Rightarrow> Sentinel ''UNEXPECTED_ERROR''), tr @ [ListBillingAccounts])"
  using assms unfolding str_contains_iff [symmetric]
  by (cases e)
     (simp_all add: dayone_get_billing_accounts_def daytwo_get_billing_accounts_def
        classify_listing_failure_def Let_def)

theorem get_billing_accounts_classification_witness:
  "list_billing_accounts disabled_api_client [] =
     Inl (PermissionDenied ''Cloud Billing API has not been used in project 42 before or it is disabled.'')
   \<and> fst (dayone_get_billing_accounts disabled_api_client []) = Sentinel ''API_DISABLED_OR_NO_PERMISSION''
   \<and> fst (daytwo_get_billing_accounts disabled_api_client []) = Sentinel ''API_DISABLED_OR_PROPAGATING''"
proof -
  have failing: "list_billing_accounts disabled_api_client [] =
     Inl (PermissionDenied ''Cloud Billing API has not been used in project 42 before or it is disabled.'')"
    by (simp add: disabled_api_client_def base_client_def)
  have found: "str_contains ''api has not been used''
     (str_lower ''Cloud Billing API has not been used in project 42 before or it is disabled.'')"
    by code_simp
  show ?thesis
    using get_billing_accounts_classification [OF failing] failing found
    unfolding str_contains_iff [symmetric]
    by simp
qed

section \<open>The check of the current billing status\<close>

text \<open>
  Claim C10. In the day-two script \<open>check_current_billing\<close> always returns a pair: it
  returns \<open>(True, account)\<close> exactly when the lookup succeeds and reports billing
  enabled, and \<open>(False, None)\<close> in every other case, in particular when the lookup
  raises \<open>NotFound\<close> or any other exception. \<open>main\<close> then goes on to search for billing
  accounts as if billing were not enabled.
\<close>

theorem check_current_billing_total:
  "check_current_billing client project_id tr =
     ((case get_project_billing_info client tr (project_resource project_id) of
         Inr info \<Rightarrow>
           if billing_enabled info then (True, Some (billing_account_name info)) else (False, None)
       | Inl e \<Rightarrow> (False, None)),
      tr @ [GetProjectBillingInfo (project_resource project_id)])
   \<and> (\<forall>e. get_project_id client = Inr project_id
          \<longrightarrow> get_project_billing_info client tr (project_resource project_id) = Inl e
          \<longrightarrow> daytwo_main client stdin tr =
                daytwo_search_and_link client project_id stdin
                  (tr @ [GetProjectBillingInfo (project_resource project_id)]))"
  by (auto simp: check_current_billing_def daytwo_main_def Let_def split: sum.splits exn.splits)

theorem check_current_billing_total_witness:
  "get_project_id unavailable_client = Inr ''my-project''
   \<and> get_project_billing_info unavailable_client [] ''projects/my-project''
       = Inl (OtherException ''503 unavailable'')
   \<and> check_current_billing unavailable_client ''my-project'' []
       = ((False, None), [GetProjectBillingInfo ''projects/my-project''])
   \<and> daytwo_main unavailable_client [] [] =
       daytwo_search_and_link unavailable_client ''my-project'' []
         [GetProjectBillingInfo ''projects/my-project'']"
proof -
  have pid: "get_project_id unavailable_client = Inr ''my-project''"
    by (simp add: get_project_id_def unavailable_client_def base_client_def strip_def is_space_def)
  have failing: "get_project_billing_info unavailable_client [] (project_resource ''my-project'')
       = Inl (OtherException ''503 unavailable'')"
    by (simp add: unavailable_client_def base_client_def)
  show ?thesis
    using check_current_billing_total [of unavailable_client "''my-project''" "[]" "[]"] pid failing
    by (simp add: project_resource_def)
qed

section \<open>The selection heuristic\<close>

subsection \<open>The descending stable sort\<close>

lemma sort_reverse_set: "set (sort_reverse key xs) = set xs"
  by (simp add: sort_reverse_def)

lemma sort_reverse_Nil_iff: "sort_reverse key xs = [] \<longleftrightarrow> xs = []"
  by (metis sort_reverse_set set_empty)

lemma sorted_map_last_max:
  "sorted (map key ys) \<Longrightarrow> y \<in> set ys \<Longrightarrow> key y \<le> key (last ys)"
proof (induction ys)
  case Nil
  then show ?case by simp
next
  case (Cons z zs)
  then show ?case by (cases zs) auto
qed

lemma sort_reverse_hd_max:
  assumes "x \<in> set xs"
  shows "key x \<le> key (hd (sort_reverse key xs))"
proof -
  have ne: "sort_key key (rev xs) \<noteq> []" using assms by (metis empty_iff set_empty set_rev set_sort)
  have "key x \<le> key (last (sort_key key (rev xs)))"
    using assms by (intro sorted_map_last_max) simp_all
  then show ?thesis using ne by (simp add: sort_reverse_def hd_rev)
qed

lemma sort_reverse_hd_mem: "xs \<noteq> [] \<Longrightarrow> hd (sort_reverse key xs) \<in> set xs"
  by (metis hd_in_set sort_reverse_Nil_iff sort_reverse_set)

lemma filter_sort_reverse:
  "filter (\<lambda>y. key y = k) (sort_reverse key xs) = filter (\<lambda>y. key y = k) xs"
  by (simp add: sort_reverse_def rev_filter [symmetric] sort_key_stable)

lemma hd_filter_own_key: "zs \<noteq> [] \<Longrightarrow> hd (filter (\<lambda>y. key y = key (hd zs)) zs) = hd zs"
  by (cases zs) simp_all

lemma sort_reverse_hd_first:
  assumes "xs \<noteq> []"
  shows "hd (sort_reverse key xs) =
         hd (filter (\<lambda>y. key y = key (hd (sort_reverse key xs))) xs)"
  using hd_filter_own_key [of "sort_reverse key xs" key] assms
  by (simp add: sort_reverse_Nil_iff filter_sort_reverse)

subsection \<open>Collecting the candidates\<close>

lemma unlinked_accounts_Cons:
  "fst (unlinked_accounts client (a # rest) tr) =
     (if fst (get_linked_project_count client a tr) = 0
      then a # fst (unlinked_accounts client rest (snd (get_linked_project_count client a tr)))
      else fst (unlinked_accounts client rest (snd (get_linked_project_count client a tr))))"
  by (simp add: split_beta Let_def)

lemma unlinked_accounts_stable:
  "\<forall>a \<in> set accounts. \<forall>tr'. fst (get_linked_project_count client a tr') = linked a \<Longrightarrow>
   fst (unlinked_accounts client accounts tr) = filter (\<lambda>a. linked a = 0) accounts"
proof (induction accounts arbitrary: tr)
  case Nil
  show ?case by simp
next
  case (Cons a rest)
  then show ?case by (simp only: unlinked_accounts_Cons) simp
qed

lemma unlinked_accounts_none:
  "\<forall>a \<in> set accounts. \<forall>tr'. fst (get_linked_project_count client a tr') \<noteq> 0 \<Longrightarrow>
   fst (unlinked_accounts client accounts tr) = []"
proof (induction accounts arbitrary: tr)
  case Nil
  show ?case by simp
next
  case (Cons a rest)
  then show ?case by (simp only: unlinked_accounts_Cons) simp
qed

lemma tagged_accounts_set:
  "set (tagged_accounts accounts) =
     {(a, s). a \<in> set accounts \<and> SUFFIX_PATTERN_search (display_name a) = Some s}"
  by (induction accounts) (auto split: option.splits)



subsection \<open>Priority 1: an account without linked projects\<close>

text \<open>
  Claim C1. Let \<open>linked a\<close> be the linked-project count the lookup reports for each
  account of the list (-1 when the lookup fails). If some account of the list has
  count 0, \<open>find_best_billing_account\<close> returns an account of the list whose count is
  0, so neither a linked account nor one whose lookup failed: its lookup returns the
  empty listing. If a zero-linked account has "trial billing account" in its
  lower-cased display name, the returned account has it too, and the returned account
  is the first zero-linked account of the list with its trial status.
\<close>

theorem find_best_prefers_unlinked:
  assumes stable: "\<forall>a \<in> set open_accounts. \<forall>tr'.
                     fst (get_linked_project_count client a tr') = linked a"
      and fresh: "\<exists>a \<in> set open_accounts. linked a = 0"
  shows "\<exists>best. fst (find_best_billing_account client open_accounts tr) = Inr best
           \<and> best \<in> set open_accounts
           \<and> linked best = 0
           \<and> (\<forall>tr'. list_project_billing_info client tr' (name best) = Inr [])
           \<and> ((\<exists>a \<in> set open_accounts. linked a = 0 \<and> is_trial_name a) \<longrightarrow> is_trial_name best)
           \<and> best = hd (filter (\<lambda>a. linked a = 0 \<and> is_trial_name a = is_trial_name best)
                          open_accounts)"
proof -
  define unlinked where "unlinked = filter (\<lambda>a. linked a = 0) open_accounts"
  define best where "best = hd (sort_reverse is_trial_name unlinked)"
  have found: "fst (unlinked_accounts client open_accounts tr) = unlinked"
    using stable by (simp add: unlinked_def unlinked_accounts_stable)
  have ne: "unlinked \<noteq> []"
    using fresh by (auto simp: unlinked_def filter_empty_conv)
  have result: "fst (find_best_billing_account client open_accounts tr) = Inr best"
    using found ne by (simp add: find_best_billing_account_def split_beta best_def)
  have mem: "best \<in> set unlinked"
    unfolding best_def using ne by (rule sort_reverse_hd_mem)
  then have in_list: "best \<in> set open_accounts" and zero: "linked best = 0"
    by (simp_all add: unlinked_def)
  have lookup: "list_project_billing_info client tr' (name best) = Inr []" for tr'
  proof -
    have "fst (get_linked_project_count client best tr') = 0"
      using stable in_list zero by simp
    then show ?thesis
      by (auto simp: linked_count_cases split: sum.splits if_splits)
  qed
  have trial: "is_trial_name best" if "a \<in> set open_accounts" "linked a = 0" "is_trial_name a" for a
  proof -
    have "a \<in> set unlinked" using that by (simp add: unlinked_def)
    then have "is_trial_name a \<le> is_trial_name best"
      unfolding best_def by (rule sort_reverse_hd_max)
    then show ?thesis using that by simp
  qed
  have "best = hd (filter (\<lambda>y. is_trial_name y = is_trial_name best) unlinked)"
    unfolding best_def using ne by (rule sort_reverse_hd_first)
  then have first: "best = hd (filter (\<lambda>a. linked a = 0 \<and> is_trial_name a = is_trial_name best)
                          open_accounts)"
    by (simp add: unlinked_def)
  show ?thesis
    using result in_list zero lookup trial first by blast
qed


theorem find_best_prefers_unlinked_witness:
  "list_all (\<lambda>a. \<forall>tr'. fst (get_linked_project_count linked_client a tr') = workshop_linked a)
     workshop_accounts
   \<and> (\<exists>a \<in> set workshop_accounts. workshop_linked a = 0)
   \<and> fst (find_best_billing_account linked_client workshop_accounts [])
       = Inr (acct ''billingAccounts/B'' ''Free Trial Billing Account'')"
proof -
  have stable: "\<forall>a \<in> set workshop_accounts. \<forall>tr'.
       fst (get_linked_project_count linked_client a tr') = workshop_linked a"
    by (simp add: workshop_accounts_def workshop_linked_def linked_count_cases linked_client_def
          base_client_def acct_def)
  have fresh: "\<exists>a \<in> set workshop_accounts. workshop_linked a = 0"
    by (simp add: workshop_accounts_def workshop_linked_def acct_def)
  have trial_B: "is_trial_name (acct ''billingAccounts/B'' ''Free Trial Billing Account'')"
    by code_simp
  have trial_C: "\<not> is_trial_name (acct ''billingAccounts/C'' ''Other'')"
    by code_simp
  obtain best where best:
    "fst (find_best_billing_account linked_client workshop_accounts []) = Inr best"
    "best \<in> set workshop_accounts" "workshop_linked best = 0"
    "(\<exists>a \<in> set workshop_accounts. workshop_linked a = 0 \<and> is_trial_name a) \<longrightarrow> is_trial_name best"
    using find_best_prefers_unlinked [OF stable fresh, of "[]"] by blast
  have "is_trial_name best"
    using best(4) trial_B by (auto simp: workshop_accounts_def workshop_linked_def acct_def)
  then have "best = acct ''billingAccounts/B'' ''Free Trial Billing Account''"
    using best(2,3) trial_C by (auto simp: workshop_accounts_def workshop_linked_def acct_def)
  then show ?thesis using stable fresh best(1) by (simp add: list_all_iff)
qed

subsection \<open>Priority 2: the newest date suffix\<close>

text \<open>
  Claim C2. If no account of the list has a linked-project count of 0 and the display
  name of at least one account matches the suffix pattern, \<open>find_best_billing_account\<close>
  returns an account of the list whose display name matches, and its matched suffix
  is greater than or equal to the matched suffix of every account of the list in the
  lexicographic order on strings.
\<close>

theorem find_best_newest_suffix:
  assumes linked: "\<forall>a \<in> set open_accounts. \<forall>tr'. fst (get_linked_project_count client a tr') \<noteq> 0"
      and tagged: "\<exists>a \<in> set open_accounts. SUFFIX_PATTERN_search (display_name a) \<noteq> None"
  shows "\<exists>best suffix. fst (find_best_billing_account client open_accounts tr) = Inr best
           \<and> best \<in> set open_accounts
           \<and> SUFFIX_PATTERN_search (display_name best) = Some suffix
           \<and> (\<forall>a \<in> set open_accounts. \<forall>s. SUFFIX_PATTERN_search (display_name a) = Some s
                  \<longrightarrow> s \<le> suffix)"
proof -
  define pairs where "pairs = tagged_accounts open_accounts"
  define top where "top = hd (sort_reverse snd pairs)"
  have none: "fst (unlinked_accounts client open_accounts tr) = []"
    using linked by (rule unlinked_accounts_none)
  have ne: "pairs \<noteq> []"
    using tagged by (auto simp: pairs_def tagged_accounts_set simp flip: set_empty)
  have result: "fst (find_best_billing_account client open_accounts tr) = Inr (fst top)"
    using none ne by (simp add: find_best_billing_account_def split_beta top_def pairs_def)
  have "top \<in> set pairs"
    unfolding top_def using ne by (rule sort_reverse_hd_mem)
  then have in_list: "fst top \<in> set open_accounts"
    and matched: "SUFFIX_PATTERN_search (display_name (fst top)) = Some (snd top)"
    by (auto simp: pairs_def tagged_accounts_set)
  have maximal: "s \<le> snd top"
    if "a \<in> set open_accounts" "SUFFIX_PATTERN_search (display_name a) = Some s" for a s
  proof -
    have "(a, s) \<in> set pairs" using that by (simp add: pairs_def tagged_accounts_set)
    then have "snd (a, s) \<le> snd top"
      unfolding top_def by (rule sort_reverse_hd_max)
    then show ?thesis by simp
  qed
  show ?thesis
    using result in_list matched maximal by blast
qed

theorem find_best_newest_suffix_witness:
  "list_all (\<lambda>a. \<forall>tr'. fst (get_linked_project_count busy_client a tr') \<noteq> 0)
     tagged_example_accounts
   \<and> (\<exists>a \<in> set tagged_example_accounts. SUFFIX_PATTERN_search (display_name a) \<noteq> None)
   \<and> fst (find_best_billing_account busy_client tagged_example_accounts [])
       = Inr (acct ''billingAccounts/X2'' ''X-202602020000'')"
proof -
  have linked: "\<forall>a \<in> set tagged_example_accounts. \<forall>tr'.
       fst (get_linked_project_count busy_client a tr') \<noteq> 0"
    by (simp add: tagged_example_accounts_def linked_count_cases busy_client_def base_client_def)
  have s0: "SUFFIX_PATTERN_search ''Plain'' = None"
    by code_simp
  have s1: "SUFFIX_PATTERN_search ''X-202501010000'' = Some ''-202501010000''"
    by code_simp
  have s2: "SUFFIX_PATTERN_search ''X-202602020000'' = Some ''-202602020000''"
    by code_simp
  have tagged: "\<exists>a \<in> set tagged_example_accounts. SUFFIX_PATTERN_search (display_name a) \<noteq> None"
    by (simp add: tagged_example_accounts_def acct_def s1 del: SUFFIX_PATTERN_search.simps)
  have newer: "\<not> ''-202602020000'' \<le> ''-202501010000''"
    by code_simp
  obtain best suffix where best:
    "fst (find_best_billing_account busy_client tagged_example_accounts []) = Inr best"
    "best \<in> set tagged_example_accounts"
    "SUFFIX_PATTERN_search (display_name best) = Some suffix"
    "\<forall>a \<in> set tagged_example_accounts. \<forall>s. SUFFIX_PATTERN_search (display_name a) = Some s
        \<longrightarrow> s \<le> suffix"
    using find_best_newest_suffix [OF linked tagged, of "[]"] by blast
  have "''-202602020000'' \<le> suffix"
    using best(4) s2
    by (simp add: tagged_example_accounts_def acct_def del: SUFFIX_PATTERN_search.simps)
  then have "best = acct ''billingAccounts/X2'' ''X-202602020000''"
    using best(2,3) s0 s1 s2 newer
    by (auto simp: tagged_example_accounts_def acct_def simp del: SUFFIX_PATTERN_search.simps)
  then show ?thesis using linked tagged best(1) by (simp add: list_all_iff)
qed

section \<open>Tagging\<close>

lemma is_digit_digit_char: "is_digit (digit_char n)"
proof -
  have "48 + n mod 10 < 256" by simp
  then have "(of_char (char_of (48 + n mod 10 :: nat)) :: nat) = 48 + n mod 10"
    by simp
  then show ?thesis by (simp add: is_digit_def digit_char_def Let_def)
qed

lemma strftime_suffix_matches: "suffix_match_here (strftime_suffix d)"
  by (simp add: suffix_match_here_def strftime_suffix_def pad2_def pad4_def is_digit_digit_char)

lemma search_finds_appended_suffix:
  "suffix_match_here suffix \<Longrightarrow> SUFFIX_PATTERN_search (s @ suffix) \<noteq> None"
proof (induction s)
  case Nil
  then show ?case by (cases suffix) (simp_all add: suffix_match_here_def)
next
  case (Cons c cs)
  then show ?case by simp
qed

lemma tagged_name_matches:
  "SUFFIX_PATTERN_search (dn @ strftime_suffix d) \<noteq> None"
  by (rule search_finds_appended_suffix) (rule strftime_suffix_matches)

lemma tag_already_tagged:
  "SUFFIX_PATTERN_search (display_name account) \<noteq> None \<Longrightarrow>
   tag_billing_account client account tr = tr"
  by (simp add: tag_billing_account_def)

lemma tag_untagged:
  "SUFFIX_PATTERN_search (display_name account) = None \<Longrightarrow>
   tag_billing_account client account tr =
     tr @ [UpdateBillingAccount (name account)
             (display_name account @ strftime_suffix (datetime_now client tr))
             (update_billing_account client tr (name account)
                (display_name account @ strftime_suffix (datetime_now client tr)))]"
  by (simp add: tag_billing_account_def Let_def)


text \<open>
  Claim C8, as stated, fails: tagging twice need not end with the display name that
  tagging once ends with. On a service that refuses the first rename and accepts the
  second, one application leaves the account named "Free", and a second application,
  given the account as the first left it, renames it to "Free-202602181530".
\<close>

theorem tag_billing_account_twice_counterexample:
  "display_name_after (acct ''billingAccounts/B'' ''Free'')
     (tag_billing_account flaky_tag_client (acct ''billingAccounts/B'' ''Free'') []) = ''Free''
   \<and> display_name_after (acct ''billingAccounts/B'' ''Free'')
       (tag_billing_account flaky_tag_client
          ((acct ''billingAccounts/B'' ''Free'')
             \<lparr>display_name := display_name_after (acct ''billingAccounts/B'' ''Free'')
                 (tag_billing_account flaky_tag_client (acct ''billingAccounts/B'' ''Free'') [])\<rparr>)
          (tag_billing_account flaky_tag_client (acct ''billingAccounts/B'' ''Free'') []))
     = ''Free-202602181530''"
  by code_simp

text \<open>
  Claim C8, amended. Let \<open>evs\<close> be the events of one application of
  \<open>tag_billing_account\<close>. If none of them is a failed update (the display name was
  tagged already, or the update succeeded), the display name the service then holds
  matches the suffix pattern and a second application, given the account with that
  display name, adds no event: it is a no-op and the final display name is the one the
  first application produced. If the update of the first application failed, the
  failure is swallowed, the display name is unchanged, and a second application issues
  the update again.
\<close>

theorem tag_billing_account_twice:
  assumes once: "tag_billing_account client account tr = tr @ evs"
  shows "((\<forall>n dn e. UpdateBillingAccount n dn (Some e) \<notin> set evs) \<longrightarrow>
            SUFFIX_PATTERN_search (display_name_after account evs) \<noteq> None
            \<and> tag_billing_account client
                 (account\<lparr>display_name := display_name_after account evs\<rparr>) (tr @ evs) = tr @ evs)
       \<and> ((\<exists>n dn e. UpdateBillingAccount n dn (Some e) \<in> set evs) \<longrightarrow>
            display_name_after account evs = display_name account
            \<and> (\<exists>dn' outcome.
                 tag_billing_account client
                   (account\<lparr>display_name := display_name_after account evs\<rparr>) (tr @ evs)
                 = tr @ evs @ [UpdateBillingAccount (name account) dn' outcome]))"
proof (cases "SUFFIX_PATTERN_search (display_name account)")
  case (Some matched)
  then have "evs = []" using once by (simp add: tag_already_tagged)
  then show ?thesis using Some by (simp add: display_name_after_def tag_already_tagged)
next
  case None
  define new_name where "new_name = display_name account @ strftime_suffix (datetime_now client tr)"
  define outcome where "outcome = update_billing_account client tr (name account) new_name"
  have evs: "evs = [UpdateBillingAccount (name account) new_name outcome]"
    using once None by (simp add: tag_untagged new_name_def outcome_def)
  show ?thesis
  proof (cases outcome)
    case success: None
    have renamed: "display_name_after account evs = new_name"
      using evs success by (simp add: display_name_after_def)
    have matches: "SUFFIX_PATTERN_search new_name \<noteq> None"
      unfolding new_name_def by (rule tagged_name_matches)
    show ?thesis
      using evs success renamed matches by (simp add: tag_already_tagged)
  next
    case failure: (Some e)
    have kept: "display_name_after account evs = display_name account"
      using evs failure by (simp add: display_name_after_def)
    show ?thesis
      using evs failure kept None by (simp add: tag_untagged)
  qed
qed


theorem tag_billing_account_twice_witness:
  "tag_billing_account base_client (acct ''billingAccounts/B'' ''Free'') []
     = [] @ [UpdateBillingAccount ''billingAccounts/B'' ''Free-202602181530'' None]
   \<and> (\<forall>n dn e. UpdateBillingAccount n dn (Some e)
          \<notin> set [UpdateBillingAccount ''billingAccounts/B'' ''Free-202602181530'' None])
   \<and> display_name_after (acct ''billingAccounts/B'' ''Free'')
        [UpdateBillingAccount ''billingAccounts/B'' ''Free-202602181530'' None]
       = ''Free-202602181530''
   \<and> tag_billing_account base_client (acct ''billingAccounts/B'' ''Free-202602181530'')
        [UpdateBillingAccount ''billingAccounts/B'' ''Free-202602181530'' None]
       = [UpdateBillingAccount ''billingAccounts/B'' ''Free-202602181530'' None]"
proof -
  have once: "tag_billing_account base_client (acct ''billingAccounts/B'' ''Free'') []
     = [] @ [UpdateBillingAccount ''billingAccounts/B'' ''Free-202602181530'' None]"
    by code_simp
  have renamed: "display_name_after (acct ''billingAccounts/B'' ''Free'')
        [UpdateBillingAccount ''billingAccounts/B'' ''Free-202602181530'' None]
       = ''Free-202602181530''"
    by (simp add: display_name_after_def acct_def)
  show ?thesis
    using tag_billing_account_twice [OF once] once renamed
    by (simp add: acct_def)
qed

section \<open>Linking\<close>

lemma upt_6: "[0..<6] = [0, 1, 2, 3, 4, 5]"
  by code_simp

lemma upt_5: "[0..<5] = [0, 1, 2, 3, 4]"
  by code_simp

lemma daytwo_verify_appends:
  "\<exists>rest. snd (daytwo_verify client pn target m w is tr) = tr @ rest"
proof (induction "is" arbitrary: tr)
  case Nil
  show ?case by simp
next
  case (Cons i rest)
  obtain r1 where r1: "snd (daytwo_verify client pn target m w rest
       (if i < m - 1 then (tr @ [GetProjectBillingInfo pn]) @ [Sleep w]
        else tr @ [GetProjectBillingInfo pn])) =
       (if i < m - 1 then (tr @ [GetProjectBillingInfo pn]) @ [Sleep w]
        else tr @ [GetProjectBillingInfo pn]) @ r1"
    using Cons.IH by blast
  show ?case
    using r1 by (auto simp: Let_def split: sum.splits)
qed

lemma link_billing_account_issues_update:
  "\<exists>outcome rest. snd (link_billing_account client project_id account tr) =
     tr @ [Print Linking,
           UpdateProjectBillingInfo (project_resource project_id) (name account) outcome] @ rest"
proof -
  define pn where "pn = project_resource project_id"
  define tr2 where "tr2 = tr @ [Print Linking,
      UpdateProjectBillingInfo pn (name account)
        (update_project_billing_info client (tr @ [Print Linking]) pn (name account))]"
  obtain rest where "snd (daytwo_verify client pn (name account) 6 10 [0..<6]
                       (tr2 @ [Print VerifyingLink])) = (tr2 @ [Print VerifyingLink]) @ rest"
    using daytwo_verify_appends by blast
  then show ?thesis
    unfolding tr2_def pn_def
    by (auto simp: link_billing_account_def Let_def split: option.splits exn.splits)
qed


text \<open>
  Claim C3, as stated, fails for day two: \<open>link_billing_account\<close> does not look at the
  current billing info before it acts. For a project that is already linked to the
  target account with billing enabled it still issues the update call.
\<close>

theorem link_billing_account_always_updates_counterexample:
  "get_project_billing_info already_linked_client [] ''projects/my-project''
     = Inr (pbi ''billingAccounts/B'' True)
   \<and> link_billing_account already_linked_client ''my-project''
       (acct ''billingAccounts/B'' ''Free'') [] =
     (True, [Print Linking,
             UpdateProjectBillingInfo ''projects/my-project'' ''billingAccounts/B'' None,
             Print VerifyingLink, GetProjectBillingInfo ''projects/my-project'',
             Print VerifiedActive])"
  by code_simp


text \<open>
  Claim C3, amended. Day one: when the project id is not empty and the current billing
  info of the project names the target account, \<open>link_project_to_billing\<close> reports
  success and returns after that one lookup, without an update call. Day two:
  \<open>link_billing_account\<close> always issues the update call first; the no-op is in
  \<open>main\<close>, which returns 0 after the lookup of \<open>check_current_billing\<close> alone when the
  project reports billing enabled.
\<close>

theorem link_noop_when_already_linked:
  "(target_project_id \<noteq> [] \<longrightarrow>
      get_project_billing_info client (tr @ [Print CheckingStatus])
        (project_resource target_project_id) = Inr current \<longrightarrow>
      billing_account_name current = name account \<longrightarrow>
      link_project_to_billing client target_project_id account tr =
        (None, tr @ [Print CheckingStatus,
                     GetProjectBillingInfo (project_resource target_project_id),
                     Print AlreadyLinked]))
   \<and> (\<exists>outcome rest. snd (link_billing_account client project_id account tr) =
         tr @ [Print Linking,
               UpdateProjectBillingInfo (project_resource project_id) (name account) outcome] @ rest)
   \<and> (get_project_id client = Inr project_id \<longrightarrow>
        get_project_billing_info client tr (project_resource project_id) = Inr current \<longrightarrow>
        billing_enabled current \<longrightarrow>
        daytwo_main client stdin tr =
          (Return 0, tr @ [GetProjectBillingInfo (project_resource project_id)]))"
proof (intro conjI)
  show "target_project_id \<noteq> [] \<longrightarrow>
      get_project_billing_info client (tr @ [Print CheckingStatus])
        (project_resource target_project_id) = Inr current \<longrightarrow>
      billing_account_name current = name account \<longrightarrow>
      link_project_to_billing client target_project_id account tr =
        (None, tr @ [Print CheckingStatus,
                     GetProjectBillingInfo (project_resource target_project_id),
                     Print AlreadyLinked])"
    by (simp add: link_project_to_billing_def Let_def)
  show "\<exists>outcome rest. snd (link_billing_account client project_id account tr) =
         tr @ [Print Linking,
               UpdateProjectBillingInfo (project_resource project_id) (name account) outcome] @ rest"
    by (rule link_billing_account_issues_update)
  show "get_project_id client = Inr project_id \<longrightarrow>
        get_project_billing_info client tr (project_resource project_id) = Inr current \<longrightarrow>
        billing_enabled current \<longrightarrow>
        daytwo_main client stdin tr =
          (Return 0, tr @ [GetProjectBillingInfo (project_resource project_id)])"
    by (simp add: daytwo_main_def check_current_billing_def Let_def)
qed


theorem link_noop_when_already_linked_witness:
  "''my-project'' \<noteq> []
   \<and> get_project_billing_info already_linked_client ([] @ [Print CheckingStatus])
        (project_resource ''my-project'') = Inr (pbi ''billingAccounts/B'' True)
   \<and> billing_account_name (pbi ''billingAccounts/B'' True)
        = name (acct ''billingAccounts/B'' ''Free'')
   \<and> link_project_to_billing already_linked_client ''my-project''
        (acct ''billingAccounts/B'' ''Free'') [] =
       (None, [Print CheckingStatus, GetProjectBillingInfo (project_resource ''my-project''),
               Print AlreadyLinked])
   \<and> get_project_id already_linked_client = Inr ''my-project''
   \<and> billing_enabled (pbi ''billingAccounts/B'' True)
   \<and> daytwo_main already_linked_client [] [] =
       (Return 0, [GetProjectBillingInfo (project_resource ''my-project'')])"
proof -
  have pid: "get_project_id already_linked_client = Inr ''my-project''"
    by (simp add: get_project_id_def already_linked_client_def base_client_def strip_def
          is_space_def)
  have current: "get_project_billing_info already_linked_client tr' (project_resource ''my-project'')
                   = Inr (pbi ''billingAccounts/B'' True)" for tr'
    by (simp add: already_linked_client_def base_client_def)
  show ?thesis
    using link_noop_when_already_linked
            [where target_project_id = "''my-project''" and client = already_linked_client
               and tr = "[]" and current = "pbi ''billingAccounts/B'' True"
               and account = "acct ''billingAccounts/B'' ''Free''"
               and project_id = "''my-project''" and stdin = "[]"]
          pid current
    by (simp add: pbi_def acct_def)
qed

section \<open>Verification that runs out of attempts\<close>

lemma daytwo_verify_exhausted:
  assumes never: "\<forall>tr'. \<not> attempt_confirms client tr' pn target"
  shows "daytwo_verify client pn target m w is tr =
           (True, tr @ concat (map (\<lambda>i. GetProjectBillingInfo pn #
                                      (if i < m - 1 then [Sleep w] else [])) is)
                    @ [Print CouldNotVerify])"
proof (induction "is" arbitrary: tr)
  case Nil
  show ?case by simp
next
  case (Cons i rest)
  have no: "\<not> attempt_confirms client tr pn target" using never by blast
  show ?case
    using no Cons.IH
    by (auto simp: attempt_confirms_def Let_def split: sum.splits)
qed

lemma dayone_verify_exhausted:
  assumes never: "\<forall>tr'. \<not> attempt_confirms client tr' pn target"
  shows "\<exists>evs. dayone_verify client pn target m w is tr =
                  tr @ evs @ [Print (WarningNotVerified m)]
               \<and> count_list evs (GetProjectBillingInfo pn) = length is
               \<and> sleeps evs = replicate (length is) w
               \<and> (\<forall>b out. UpdateProjectBillingInfo pn b out \<notin> set evs)"
proof (induction "is" arbitrary: tr)
  case Nil
  show ?case by simp
next
  case (Cons i rest)
  have no: "\<not> attempt_confirms client tr pn target" using never by blast
  show ?case
  proof (cases "get_project_billing_info client tr pn")
    case (Inl e)
    define tr1 where "tr1 = tr @ [GetProjectBillingInfo pn, Print VerificationError, Sleep w]"
    obtain evs where evs: "dayone_verify client pn target m w rest tr1 =
                  tr1 @ evs @ [Print (WarningNotVerified m)]"
               "count_list evs (GetProjectBillingInfo pn) = length rest"
               "sleeps evs = replicate (length rest) w"
               "\<forall>b out. UpdateProjectBillingInfo pn b out \<notin> set evs"
      using Cons.IH by blast
    let ?evs = "[GetProjectBillingInfo pn, Print VerificationError, Sleep w] @ evs"
    have "dayone_verify client pn target m w (i # rest) tr =
                  tr @ ?evs @ [Print (WarningNotVerified m)]"
      using Inl evs(1) by (simp add: tr1_def)
    moreover have "count_list ?evs (GetProjectBillingInfo pn) = length (i # rest)"
      using evs(2) by simp
    moreover have "sleeps ?evs = replicate (length (i # rest)) w"
      using evs(3) by simp
    moreover have "\<forall>b out. UpdateProjectBillingInfo pn b out \<notin> set ?evs"
      using evs(4) by simp
    ultimately show ?thesis by blast
  next
    case (Inr info)
    then have unconfirmed: "\<not> link_confirmed target info"
      using no by (simp add: attempt_confirms_def)
    define tr1 where "tr1 = tr @ [GetProjectBillingInfo pn, Print (AttemptNotActive (i + 1) m), Sleep w]"
    obtain evs where evs: "dayone_verify client pn target m w rest tr1 =
                  tr1 @ evs @ [Print (WarningNotVerified m)]"
               "count_list evs (GetProjectBillingInfo pn) = length rest"
               "sleeps evs = replicate (length rest) w"
               "\<forall>b out. UpdateProjectBillingInfo pn b out \<notin> set evs"
      using Cons.IH by blast
    let ?evs = "[GetProjectBillingInfo pn, Print (AttemptNotActive (i + 1) m), Sleep w] @ evs"
    have "dayone_verify client pn target m w (i # rest) tr =
                  tr @ ?evs @ [Print (WarningNotVerified m)]"
      using Inr unconfirmed evs(1) by (simp add: tr1_def)
    moreover have "count_list ?evs (GetProjectBillingInfo pn) = length (i # rest)"
      using evs(2) by simp
    moreover have "sleeps ?evs = replicate (length (i # rest)) w"
      using evs(3) by simp
    moreover have "\<forall>b out. UpdateProjectBillingInfo pn b out \<notin> set ?evs"
      using evs(4) by simp
    ultimately show ?thesis by blast
  qed
qed

lemma sleeps_append: "sleeps (xs @ ys) = sleeps xs @ sleeps ys"
  by (induction xs rule: sleeps.induct) simp_all

lemma dayone_update_and_verify_exhausted:
  assumes never: "\<forall>tr'. \<not> attempt_confirms client tr' pn target"
      and accepted: "\<forall>tr'. update_project_billing_info client tr' pn target = None"
  shows "\<exists>evs. dayone_update_and_verify client pn target tr =
                  tr @ [Print Proceeding, UpdateProjectBillingInfo pn target None,
                        Print LinkRequestSent, Print NowVerifying]
                     @ evs @ [Print (WarningNotVerified 6)]
               \<and> count_list evs (GetProjectBillingInfo pn) = 6
               \<and> sleeps evs = replicate 6 10"
proof -
  define tr2 where "tr2 = tr @ [Print Proceeding, UpdateProjectBillingInfo pn target None,
                        Print LinkRequestSent, Print NowVerifying]"
  obtain evs where evs:
    "dayone_verify client pn target 6 10 [0..<6] tr2 = tr2 @ evs @ [Print (WarningNotVerified 6)]"
    "count_list evs (GetProjectBillingInfo pn) = length [0..<6]"
    "sleeps evs = replicate (length [0..<6]) 10"
    using dayone_verify_exhausted [OF never] by blast
  have "dayone_update_and_verify client pn target tr =
          dayone_verify client pn target 6 10 [0..<6] tr2"
    using accepted
    by (simp add: dayone_update_and_verify_def Let_def tr2_def del: dayone_verify.simps)
  then have "dayone_update_and_verify client pn target tr =
          tr2 @ evs @ [Print (WarningNotVerified 6)]"
    using evs(1) by simp
  then show ?thesis
    using evs(2,3) by (auto simp: tr2_def)
qed


text \<open>
  Claim C4. Suppose the update call is accepted and no lookup of the project's billing
  info ever confirms the link. Day two: \<open>link_billing_account\<close> makes six lookups with
  five sleeps of 10 between them, prints that it could not verify, and returns \<open>True\<close>,
  so \<open>main\<close> goes on to tag the account and return 0. Day one, when the check of the
  current status lets the link go ahead: \<open>link_project_to_billing\<close> issues the update,
  makes six more lookups, each followed by a sleep of 10, ends with the warning and
  returns normally, and the script goes on to tag the account.
\<close>

theorem verification_exhaustion_is_not_failure:
  assumes never: "\<forall>tr'. \<not> attempt_confirms client tr' (project_resource project_id) (name account)"
      and accepted: "\<forall>tr'. update_project_billing_info client tr' (project_resource project_id)
                              (name account) = None"
  shows "link_billing_account client project_id account tr =
           (True, tr @ [Print Linking,
                        UpdateProjectBillingInfo (project_resource project_id) (name account) None,
                        Print VerifyingLink,
                        GetProjectBillingInfo (project_resource project_id), Sleep 10,
                        GetProjectBillingInfo (project_resource project_id), Sleep 10,
                        GetProjectBillingInfo (project_resource project_id), Sleep 10,
                        GetProjectBillingInfo (project_resource project_id), Sleep 10,
                        GetProjectBillingInfo (project_resource project_id), Sleep 10,
                        GetProjectBillingInfo (project_resource project_id),
                        Print CouldNotVerify])
       \<and> fst (daytwo_link_and_tag client project_id account tr) = Some 0
       \<and> (project_id \<noteq> [] \<longrightarrow>
            ((\<exists>m. get_project_billing_info client (tr @ [Print CheckingStatus])
                    (project_resource project_id) = Inl (NotFound m))
             \<or> (\<exists>current. get_project_billing_info client (tr @ [Print CheckingStatus])
                             (project_resource project_id) = Inr current
                           \<and> billing_account_name current \<noteq> name account)) \<longrightarrow>
            (\<exists>evs. link_project_to_billing client project_id account tr =
                      (None, tr @ evs @ [Print (WarningNotVerified 6)])
                  \<and> UpdateProjectBillingInfo (project_resource project_id) (name account) None
                      \<in> set evs
                  \<and> count_list evs (GetProjectBillingInfo (project_resource project_id)) = 7
                  \<and> sleeps evs = replicate 6 10
                  \<and> dayone_link_and_tag client project_id account tr =
                      (None, tag_billing_account client account
                               (tr @ evs @ [Print (WarningNotVerified 6)]))))"
proof (intro conjI impI)
  define pn where "pn = project_resource project_id"
  have never': "\<forall>tr'. \<not> attempt_confirms client tr' pn (name account)"
    using never by (simp add: pn_def)
  have accepted': "\<forall>tr'. update_project_billing_info client tr' pn (name account) = None"
    using accepted by (simp add: pn_def)
  show linked: "link_billing_account client project_id account tr =
           (True, tr @ [Print Linking,
                        UpdateProjectBillingInfo (project_resource project_id) (name account) None,
                        Print VerifyingLink,
                        GetProjectBillingInfo (project_resource project_id), Sleep 10,
                        GetProjectBillingInfo (project_resource project_id), Sleep 10,
                        GetProjectBillingInfo (project_resource project_id), Sleep 10,
                        GetProjectBillingInfo (project_resource project_id), Sleep 10,
                        GetProjectBillingInfo (project_resource project_id), Sleep 10,
                        GetProjectBillingInfo (project_resource project_id),
                        Print CouldNotVerify])"
  proof -
    define tr3 where "tr3 = tr @ [Print Linking, UpdateProjectBillingInfo pn (name account) None,
                                 Print VerifyingLink]"
    have "daytwo_verify client pn (name account) 6 10 [0..<6] tr3 =
            (True, tr3 @ [GetProjectBillingInfo pn, Sleep 10, GetProjectBillingInfo pn, Sleep 10,
                          GetProjectBillingInfo pn, Sleep 10, GetProjectBillingInfo pn, Sleep 10,
                          GetProjectBillingInfo pn, Sleep 10, GetProjectBillingInfo pn,
                          Print CouldNotVerify])"
      unfolding daytwo_verify_exhausted [OF never'] by (simp add: upt_6)
    moreover have "link_billing_account client project_id account tr =
            daytwo_verify client pn (name account) 6 10 [0..<6] tr3"
      using accepted'
      by (simp add: link_billing_account_def Let_def pn_def [symmetric] tr3_def
            del: daytwo_verify.simps)
    ultimately show ?thesis
      by (simp add: tr3_def pn_def)
  qed
  show "fst (daytwo_link_and_tag client project_id account tr) = Some 0"
    using linked by (simp add: daytwo_link_and_tag_def)
  assume nonempty: "project_id \<noteq> []"
    and proceeds: "(\<exists>m. get_project_billing_info client (tr @ [Print CheckingStatus])
                    (project_resource project_id) = Inl (NotFound m))
             \<or> (\<exists>current. get_project_billing_info client (tr @ [Print CheckingStatus])
                             (project_resource project_id) = Inr current
                           \<and> billing_account_name current \<noteq> name account)"
  define checked where "checked =
    (case get_project_billing_info client (tr @ [Print CheckingStatus]) pn of
       Inl e \<Rightarrow> [Print CheckingStatus, GetProjectBillingInfo pn, Print NotLinkedYet]
     | Inr current \<Rightarrow>
         if billing_enabled current
         then [Print CheckingStatus, GetProjectBillingInfo pn, Print LinkedToDifferent]
         else [Print CheckingStatus, GetProjectBillingInfo pn])"
  have gets: "count_list checked (GetProjectBillingInfo pn) = 1"
    and quiet: "sleeps checked = []"
    by (auto simp: checked_def split: sum.splits)
  have step: "link_project_to_billing client project_id account tr =
                (None, dayone_update_and_verify client pn (name account) (tr @ checked))"
    using nonempty proceeds
    by (auto simp: link_project_to_billing_def Let_def checked_def pn_def)
  obtain evs where evs:
    "dayone_update_and_verify client pn (name account) (tr @ checked) =
       (tr @ checked) @ [Print Proceeding, UpdateProjectBillingInfo pn (name account) None,
                        Print LinkRequestSent, Print NowVerifying]
                     @ evs @ [Print (WarningNotVerified 6)]"
    "count_list evs (GetProjectBillingInfo pn) = 6"
    "sleeps evs = replicate 6 10"
    using dayone_update_and_verify_exhausted [OF never' accepted'] by blast
  let ?evs = "checked @ [Print Proceeding, UpdateProjectBillingInfo pn (name account) None,
                        Print LinkRequestSent, Print NowVerifying] @ evs"
  have result: "link_project_to_billing client project_id account tr =
                  (None, tr @ ?evs @ [Print (WarningNotVerified 6)])"
    using step evs(1) by simp
  moreover have "UpdateProjectBillingInfo pn (name account) None \<in> set ?evs"
    by simp
  moreover have "count_list ?evs (GetProjectBillingInfo pn) = 7"
    using gets evs(2) by simp
  moreover have "sleeps ?evs = replicate 6 10"
    using quiet evs(3) by (simp add: sleeps_append)
  moreover have "dayone_link_and_tag client project_id account tr =
                      (None, tag_billing_account client account
                               (tr @ ?evs @ [Print (WarningNotVerified 6)]))"
    using result by (simp add: dayone_link_and_tag_def)
  ultimately show "\<exists>evs. link_project_to_billing client project_id account tr =
                      (None, tr @ evs @ [Print (WarningNotVerified 6)])
                  \<and> UpdateProjectBillingInfo (project_resource project_id) (name account) None
                      \<in> set evs
                  \<and> count_list evs (GetProjectBillingInfo (project_resource project_id)) = 7
                  \<and> sleeps evs = replicate 6 10
                  \<and> dayone_link_and_tag client project_id account tr =
                      (None, tag_billing_account client account
                               (tr @ evs @ [Print (WarningNotVerified 6)]))"
    unfolding pn_def by blast
qed

theorem verification_exhaustion_is_not_failure_witness:
  "(\<forall>tr'. \<not> attempt_confirms never_active_client tr' (project_resource ''my-project'')
             (name (acct ''billingAccounts/B'' ''Free'')))
   \<and> (\<forall>tr'. update_project_billing_info never_active_client tr'
               (project_resource ''my-project'') (name (acct ''billingAccounts/B'' ''Free'')) = None)
   \<and> fst (link_billing_account never_active_client ''my-project''
             (acct ''billingAccounts/B'' ''Free'') []) = True
   \<and> fst (link_project_to_billing never_active_client ''my-project''
             (acct ''billingAccounts/B'' ''Free'') []) = None
   \<and> last (snd (link_project_to_billing never_active_client ''my-project''
                   (acct ''billingAccounts/B'' ''Free'') [])) = Print (WarningNotVerified 6)"
proof -
  have never: "\<forall>tr'. \<not> attempt_confirms never_active_client tr' (project_resource ''my-project'')
             (name (acct ''billingAccounts/B'' ''Free''))"
    by (simp add: attempt_confirms_def never_active_client_def base_client_def link_confirmed_def
          pbi_def)
  have accepted: "\<forall>tr'. update_project_billing_info never_active_client tr'
               (project_resource ''my-project'') (name (acct ''billingAccounts/B'' ''Free'')) = None"
    by (simp add: never_active_client_def base_client_def)
  have proceeds: "\<exists>current. get_project_billing_info never_active_client ([] @ [Print CheckingStatus])
                             (project_resource ''my-project'') = Inr current
                           \<and> billing_account_name current
                               \<noteq> name (acct ''billingAccounts/B'' ''Free'')"
    by (simp add: never_active_client_def base_client_def pbi_def acct_def)
  have nonempty: "''my-project'' \<noteq> []"
    by simp
  obtain evs where
    "link_project_to_billing never_active_client ''my-project''
       (acct ''billingAccounts/B'' ''Free'') [] = (None, [] @ evs @ [Print (WarningNotVerified 6)])"
    using verification_exhaustion_is_not_failure [OF never accepted, of "[]"] proceeds nonempty
    by blast
  then show ?thesis
    using verification_exhaustion_is_not_failure [OF never accepted, of "[]"] never accepted
    by simp
qed

section \<open>Waiting for the billing API\<close>

lemma dayone_get_trace: "snd (dayone_get_billing_accounts client tr) = tr @ [ListBillingAccounts]"
  by (simp add: dayone_get_billing_accounts_def split: sum.splits)

lemma daytwo_get_trace: "snd (daytwo_get_billing_accounts client tr) = tr @ [ListBillingAccounts]"
  by (simp add: daytwo_get_billing_accounts_def split: sum.splits)

lemma dayone_get_propagating:
  "fst (dayone_get_billing_accounts client tr) = Sentinel ''API_DISABLED_OR_NO_PERMISSION''
     \<longleftrightarrow> api_propagating client tr"
  by (auto simp: dayone_get_billing_accounts_def api_propagating_def classify_listing_failure_def
        Let_def split: sum.splits exn.splits)

lemma daytwo_get_propagating:
  "fst (daytwo_get_billing_accounts client tr) = Sentinel ''API_DISABLED_OR_PROPAGATING''
     \<longleftrightarrow> api_propagating client tr"
  by (auto simp: daytwo_get_billing_accounts_def api_propagating_def classify_listing_failure_def
        Let_def split: sum.splits exn.splits)

lemma dayone_retry_Cons:
  "dayone_retry_listing client (i # rest) w r tr =
     (if api_propagating client (tr @ [Sleep w])
      then dayone_retry_listing client rest (w * (3 / 2))
             (Sentinel ''API_DISABLED_OR_NO_PERMISSION'') (tr @ [Sleep w, ListBillingAccounts])
      else (fst (dayone_get_billing_accounts client (tr @ [Sleep w])),
            tr @ [Sleep w, ListBillingAccounts]))"
  using dayone_get_trace [of client "tr @ [Sleep w]"]
        dayone_get_propagating [of client "tr @ [Sleep w]"]
  by (cases "dayone_get_billing_accounts client (tr @ [Sleep w])") auto

lemma daytwo_retry_Cons:
  "daytwo_retry_listing client (i # rest) w r tr =
     (if api_propagating client (tr @ [Sleep (of_nat w)])
      then daytwo_retry_listing client rest (w * 3 div 2)
             (Sentinel ''API_DISABLED_OR_PROPAGATING'')
             (tr @ [Sleep (of_nat w), ListBillingAccounts])
      else (fst (daytwo_get_billing_accounts client (tr @ [Sleep (of_nat w)])),
            tr @ [Sleep (of_nat w), ListBillingAccounts]))"
  using daytwo_get_trace [of client "tr @ [Sleep (of_nat w)]"]
        daytwo_get_propagating [of client "tr @ [Sleep (of_nat w)]"]
  by (cases "daytwo_get_billing_accounts client (tr @ [Sleep (of_nat w)])") auto

lemma dayone_retry_delays:
  "\<exists>evs n. snd (dayone_retry_listing client is w r tr) = tr @ evs
         \<and> n \<le> length is \<and> (is \<noteq> [] \<longrightarrow> 1 \<le> n)
         \<and> count_list evs ListBillingAccounts = n
         \<and> sleeps evs = take n (dayone_delays (length is) w)"
proof (induction "is" arbitrary: w r tr)
  case Nil
  show ?case by simp
next
  case (Cons i rest)
  show ?case
  proof (cases "api_propagating client (tr @ [Sleep w])")
    case False
    then have "snd (dayone_retry_listing client (i # rest) w r tr)
                 = tr @ [Sleep w, ListBillingAccounts]"
      by (simp only: dayone_retry_Cons) simp
    moreover have "count_list [Sleep w, ListBillingAccounts] ListBillingAccounts = 1"
      by simp
    moreover have "sleeps [Sleep w, ListBillingAccounts]
                     = take 1 (dayone_delays (length (i # rest)) w)"
      by simp
    ultimately show ?thesis
      by (intro exI [of _ "[Sleep w, ListBillingAccounts]"] exI [of _ 1]) simp
  next
    case True
    obtain evs n where evs:
      "snd (dayone_retry_listing client rest (w * (3 / 2))
              (Sentinel ''API_DISABLED_OR_NO_PERMISSION'') (tr @ [Sleep w, ListBillingAccounts]))
         = (tr @ [Sleep w, ListBillingAccounts]) @ evs"
      "n \<le> length rest" "count_list evs ListBillingAccounts = n"
      "sleeps evs = take n (dayone_delays (length rest) (w * (3 / 2)))"
      using Cons.IH by blast
    have "snd (dayone_retry_listing client (i # rest) w r tr)
            = tr @ ([Sleep w, ListBillingAccounts] @ evs)"
      using True evs(1) by (simp only: dayone_retry_Cons) simp
    moreover have "count_list ([Sleep w, ListBillingAccounts] @ evs) ListBillingAccounts = Suc n"
      using evs(3) by simp
    moreover have "sleeps ([Sleep w, ListBillingAccounts] @ evs)
                     = take (Suc n) (dayone_delays (length (i # rest)) w)"
      using evs(4) by simp
    ultimately show ?thesis
      using evs(2)
      by (intro exI [of _ "[Sleep w, ListBillingAccounts] @ evs"] exI [of _ "Suc n"]) simp
  qed
qed

lemma daytwo_retry_delays:
  "\<exists>evs n. snd (daytwo_retry_listing client is w r tr) = tr @ evs
         \<and> n \<le> length is \<and> (is \<noteq> [] \<longrightarrow> 1 \<le> n)
         \<and> count_list evs ListBillingAccounts = n
         \<and> sleeps evs = take n (map of_nat (daytwo_delays (length is) w))"
proof (induction "is" arbitrary: w r tr)
  case Nil
  show ?case by simp
next
  case (Cons i rest)
  show ?case
  proof (cases "api_propagating client (tr @ [Sleep (of_nat w)])")
    case False
    then have "snd (daytwo_retry_listing client (i # rest) w r tr)
                 = tr @ [Sleep (of_nat w), ListBillingAccounts]"
      by (simp only: daytwo_retry_Cons) simp
    moreover have "count_list [Sleep (of_nat w), ListBillingAccounts] ListBillingAccounts = 1"
      by simp
    moreover have "sleeps [Sleep (of_nat w), ListBillingAccounts]
                     = take 1 (map of_nat (daytwo_delays (length (i # rest)) w))"
      by simp
    ultimately show ?thesis
      by (intro exI [of _ "[Sleep (of_nat w), ListBillingAccounts]"] exI [of _ 1]) simp
  next
    case True
    obtain evs n where evs:
      "snd (daytwo_retry_listing client rest (w * 3 div 2)
              (Sentinel ''API_DISABLED_OR_PROPAGATING'')
              (tr @ [Sleep (of_nat w), ListBillingAccounts]))
         = (tr @ [Sleep (of_nat w), ListBillingAccounts]) @ evs"
      "n \<le> length rest" "count_list evs ListBillingAccounts = n"
      "sleeps evs = take n (map of_nat (daytwo_delays (length rest) (w * 3 div 2)))"
      using Cons.IH by blast
    have "snd (daytwo_retry_listing client (i # rest) w r tr)
            = tr @ ([Sleep (of_nat w), ListBillingAccounts] @ evs)"
      using True evs(1) by (simp only: daytwo_retry_Cons) simp
    moreover have "count_list ([Sleep (of_nat w), ListBillingAccounts] @ evs) ListBillingAccounts
                     = Suc n"
      using evs(3) by simp
    moreover have "sleeps ([Sleep (of_nat w), ListBillingAccounts] @ evs)
                     = take (Suc n) (map of_nat (daytwo_delays (length (i # rest)) w))"
      using evs(4) by simp
    ultimately show ?thesis
      using evs(2)
      by (intro exI [of _ "[Sleep (of_nat w), ListBillingAccounts] @ evs"] exI [of _ "Suc n"]) simp
  qed
qed

lemma dayone_retry_never_active:
  assumes "\<forall>tr'. api_propagating client tr'"
  shows "dayone_retry_listing client is w r tr =
           (if is = [] then r else Sentinel ''API_DISABLED_OR_NO_PERMISSION'',
            tr @ concat (map (\<lambda>d. [Sleep d, ListBillingAccounts]) (dayone_delays (length is) w)))"
proof (induction "is" arbitrary: w r tr)
  case Nil
  show ?case by simp
next
  case (Cons i rest)
  show ?case
    using assms by (simp only: dayone_retry_Cons Cons.IH) simp
qed

lemma daytwo_retry_never_active:
  assumes "\<forall>tr'. api_propagating client tr'"
  shows "daytwo_retry_listing client is w r tr =
           (if is = [] then r else Sentinel ''API_DISABLED_OR_PROPAGATING'',
            tr @ concat (map (\<lambda>d. [Sleep (of_nat d), ListBillingAccounts])
                           (daytwo_delays (length is) w)))"
proof (induction "is" arbitrary: w r tr)
  case Nil
  show ?case by simp
next
  case (Cons i rest)
  show ?case
    using assms by (simp only: daytwo_retry_Cons Cons.IH) simp
qed

lemma dayone_delays_5: "dayone_delays 5 15 = [15, 45 / 2, 135 / 4, 405 / 8, 1215 / 16]"
  by code_simp

lemma daytwo_delays_5: "daytwo_delays 5 15 = [15, 22, 33, 49, 73]"
  by code_simp

lemma length_upt_5: "length [0..<5] = 5"
  by simp


text \<open>
  The retry loops by themselves, on any service: between one and five listings, each
  after a sleep, with the delays an initial part of the sequence of the variant.
\<close>

lemma retry_loop_delays:
  "(\<exists>evs n. snd (dayone_retry_listing client [0..<5] 15 r tr) = tr @ evs
       \<and> 1 \<le> n \<and> n \<le> 5
       \<and> count_list evs ListBillingAccounts = n
       \<and> sleeps evs = take n [15, 45 / 2, 135 / 4, 405 / 8, 1215 / 16])
   \<and> (\<exists>evs n. snd (daytwo_retry_listing client [0..<5] 15 r tr) = tr @ evs
       \<and> 1 \<le> n \<and> n \<le> 5
       \<and> count_list evs ListBillingAccounts = n
       \<and> sleeps evs = take n [15, 22, 33, 49, 73])
   \<and> ((\<forall>tr'. api_propagating client tr') \<longrightarrow>
        dayone_retry_listing client [0..<5] 15 r tr =
          (Sentinel ''API_DISABLED_OR_NO_PERMISSION'',
           tr @ [Sleep 15, ListBillingAccounts, Sleep (45 / 2), ListBillingAccounts,
                 Sleep (135 / 4), ListBillingAccounts, Sleep (405 / 8), ListBillingAccounts,
                 Sleep (1215 / 16), ListBillingAccounts])
        \<and> daytwo_retry_listing client [0..<5] 15 r tr =
          (Sentinel ''API_DISABLED_OR_PROPAGATING'',
           tr @ [Sleep 15, ListBillingAccounts, Sleep 22, ListBillingAccounts,
                 Sleep 33, ListBillingAccounts, Sleep 49, ListBillingAccounts,
                 Sleep 73, ListBillingAccounts]))"
proof (intro conjI impI)
  obtain evs n where one:
    "snd (dayone_retry_listing client [0..<5] 15 r tr) = tr @ evs"
    "n \<le> length [0..<5]" "[0..<5] \<noteq> [] \<longrightarrow> 1 \<le> n"
    "count_list evs ListBillingAccounts = n"
    "sleeps evs = take n (dayone_delays (length [0..<5]) 15)"
    using dayone_retry_delays [of client "[0..<5]" 15 r tr] by blast
  have "1 \<le> n" "n \<le> 5" using one(2,3) by simp_all
  moreover have "sleeps evs = take n [15, 45 / 2, 135 / 4, 405 / 8, 1215 / 16]"
    using one(5) by (simp only: length_upt_5 dayone_delays_5)
  ultimately show "\<exists>evs n. snd (dayone_retry_listing client [0..<5] 15 r tr) = tr @ evs
       \<and> 1 \<le> n \<and> n \<le> 5
       \<and> count_list evs ListBillingAccounts = n
       \<and> sleeps evs = take n [15, 45 / 2, 135 / 4, 405 / 8, 1215 / 16]"
    using one(1,4) by blast
next
  obtain evs n where two:
    "snd (daytwo_retry_listing client [0..<5] 15 r tr) = tr @ evs"
    "n \<le> length [0..<5]" "[0..<5] \<noteq> [] \<longrightarrow> 1 \<le> n"
    "count_list evs ListBillingAccounts = n"
    "sleeps evs = take n (map of_nat (daytwo_delays (length [0..<5]) 15))"
    using daytwo_retry_delays [of client "[0..<5]" 15 r tr] by blast
  have "1 \<le> n" "n \<le> 5" using two(2,3) by simp_all
  moreover have "map of_nat (daytwo_delays (length [0..<5]) 15) = [15, 22, 33, 49, 73 :: rat]"
    by (simp only: length_upt_5 daytwo_delays_5) simp
  then have "sleeps evs = take n [15, 22, 33, 49, 73]"
    using two(5) by simp
  ultimately show "\<exists>evs n. snd (daytwo_retry_listing client [0..<5] 15 r tr) = tr @ evs
       \<and> 1 \<le> n \<and> n \<le> 5
       \<and> count_list evs ListBillingAccounts = n
       \<and> sleeps evs = take n [15, 22, 33, 49, 73]"
    using two(1,4) by blast
next
  assume never: "\<forall>tr'. api_propagating client tr'"
  have "dayone_retry_listing client [0..<5] 15 r tr =
          (Sentinel ''API_DISABLED_OR_NO_PERMISSION'',
           tr @ concat (map (\<lambda>d. [Sleep d, ListBillingAccounts]) (dayone_delays 5 15)))"
    unfolding dayone_retry_never_active [OF never] by simp
  then show "dayone_retry_listing client [0..<5] 15 r tr =
          (Sentinel ''API_DISABLED_OR_NO_PERMISSION'',
           tr @ [Sleep 15, ListBillingAccounts, Sleep (45 / 2), ListBillingAccounts,
                 Sleep (135 / 4), ListBillingAccounts, Sleep (405 / 8), ListBillingAccounts,
                 Sleep (1215 / 16), ListBillingAccounts])"
    by (simp only: dayone_delays_5) simp
  have "daytwo_retry_listing client [0..<5] 15 r tr =
          (Sentinel ''API_DISABLED_OR_PROPAGATING'',
           tr @ concat (map (\<lambda>d. [Sleep (of_nat d), ListBillingAccounts]) (daytwo_delays 5 15)))"
    unfolding daytwo_retry_never_active [OF never] by simp
  then show "daytwo_retry_listing client [0..<5] 15 r tr =
          (Sentinel ''API_DISABLED_OR_PROPAGATING'',
           tr @ [Sleep 15, ListBillingAccounts, Sleep 22, ListBillingAccounts,
                 Sleep 33, ListBillingAccounts, Sleep 49, ListBillingAccounts,
                 Sleep 73, ListBillingAccounts])"
    by (simp only: daytwo_delays_5) simp
qed

section \<open>How the scripts end\<close>

subsection \<open>Accepted links and exit codes of day two\<close>

lemma daytwo_verify_True: "fst (daytwo_verify client pn target m w is tr)"
  by (induction "is" arbitrary: tr) (auto simp: Let_def split: sum.splits)

lemma link_billing_account_True_iff:
  "\<exists>outcome rest. link_billing_account client project_id account tr =
      (outcome = None,
       tr @ [Print Linking,
             UpdateProjectBillingInfo (project_resource project_id) (name account) outcome] @ rest)"
proof -
  define pn where "pn = project_resource project_id"
  define outcome where
    "outcome = update_project_billing_info client (tr @ [Print Linking]) pn (name account)"
  define tr2 where "tr2 = tr @ [Print Linking, UpdateProjectBillingInfo pn (name account) outcome]"
  show ?thesis
  proof (cases outcome)
    case None
    obtain rest where rest: "snd (daytwo_verify client pn (name account) 6 10 [0..<6]
                       (tr2 @ [Print VerifyingLink])) = (tr2 @ [Print VerifyingLink]) @ rest"
      using daytwo_verify_appends by blast
    have "fst (daytwo_verify client pn (name account) 6 10 [0..<6] (tr2 @ [Print VerifyingLink]))"
      by (rule daytwo_verify_True)
    then have "daytwo_verify client pn (name account) 6 10 [0..<6] (tr2 @ [Print VerifyingLink])
                 = (True, (tr2 @ [Print VerifyingLink]) @ rest)"
      using rest by (metis prod.collapse)
    then have "link_billing_account client project_id account tr =
                 (outcome = None, tr @ [Print Linking,
                    UpdateProjectBillingInfo pn (name account) outcome]
                    @ (Print VerifyingLink # rest))"
      using None
      by (simp add: link_billing_account_def Let_def pn_def [symmetric] outcome_def [symmetric]
            tr2_def del: daytwo_verify.simps)
    then show ?thesis unfolding pn_def by blast
  next
    case (Some e)
    then have "\<exists>m. link_billing_account client project_id account tr =
                 (outcome = None, tr @ [Print Linking,
                    UpdateProjectBillingInfo pn (name account) outcome] @ [Print m])"
      by (cases e)
         (simp_all add: link_billing_account_def Let_def pn_def [symmetric] outcome_def [symmetric])
    then show ?thesis unfolding pn_def by blast
  qed
qed


lemma link_accepted_append [simp]:
  "link_accepted (xs @ ys) \<longleftrightarrow> link_accepted xs \<or> link_accepted ys"
  by (simp add: link_accepted_def)

lemma link_accepted_Nil [simp]: "\<not> link_accepted []"
  by (simp add: link_accepted_def)

lemma link_accepted_Cons [simp]:
  "link_accepted (ev # evs) \<longleftrightarrow> is_accepted_update ev \<or> link_accepted evs"
  by (simp add: link_accepted_def)

lemma daytwo_verify_accepted:
  "link_accepted (snd (daytwo_verify client pn target m w is tr)) = link_accepted tr"
  by (induction "is" arbitrary: tr) (auto simp: Let_def split: sum.splits)

lemma link_billing_account_accepted:
  "link_accepted (snd (link_billing_account client project_id account tr))
     \<longleftrightarrow> link_accepted tr \<or> fst (link_billing_account client project_id account tr)"
proof (cases "update_project_billing_info client (tr @ [Print Linking])
                (project_resource project_id) (name account)")
  case None
  then show ?thesis
    by (simp add: link_billing_account_def Let_def daytwo_verify_accepted daytwo_verify_True
          del: daytwo_verify.simps)
next
  case (Some e)
  then show ?thesis
    by (cases e) (simp_all add: link_billing_account_def Let_def)
qed

lemma tag_accepted:
  "link_accepted (tag_billing_account client account tr) = link_accepted tr"
  by (simp add: tag_billing_account_def Let_def)

lemma daytwo_link_and_tag_cases:
  assumes "daytwo_link_and_tag client project_id account tr = (r, tr')"
  shows "(r = Some 0 \<or> r = None) \<and> (link_accepted tr' \<longleftrightarrow> link_accepted tr \<or> r = Some 0)"
  using assms link_billing_account_accepted [of client project_id account tr]
  by (auto simp: daytwo_link_and_tag_def split_beta tag_accepted split: if_splits)

lemma get_linked_project_count_accepted:
  "link_accepted (snd (get_linked_project_count client a tr)) = link_accepted tr"
  by (simp add: get_linked_project_count_def split: sum.splits)

lemma unlinked_accounts_accepted:
  "link_accepted (snd (unlinked_accounts client accounts tr)) = link_accepted tr"
  by (induction accounts arbitrary: tr)
     (simp_all add: split_beta Let_def get_linked_project_count_accepted)

lemma find_best_accepted:
  assumes "find_best_billing_account client open_accounts tr = (r, tr')"
  shows "link_accepted tr' = link_accepted tr"
  using assms unlinked_accounts_accepted [of client open_accounts tr]
  by (auto simp: find_best_billing_account_def split_beta Let_def split: if_splits list.splits)

lemma daytwo_handle_result_codes:
  "exit_code (fst (daytwo_handle_result client project_id stdin r tr)) \<in> {0, 1}
   \<and> (link_accepted (snd (daytwo_handle_result client project_id stdin r tr))
        \<longleftrightarrow> link_accepted tr
            \<or> exit_code (fst (daytwo_handle_result client project_id stdin r tr)) = 0)"
  by (auto simp: daytwo_handle_result_def Let_def
      split: accounts_result.splits prod.splits option.splits sum.splits
      dest!: daytwo_link_and_tag_cases find_best_accepted)


lemma daytwo_retry_accepted:
  "link_accepted (snd (daytwo_retry_listing client is w r tr)) = link_accepted tr"
proof (induction "is" arbitrary: w r tr)
  case Nil
  show ?case by simp
next
  case (Cons i rest)
  show ?case by (simp only: daytwo_retry_Cons Cons.IH split: if_splits) simp
qed

lemma daytwo_wait_Cons:
  "daytwo_wait_for_accounts client (i # rest) r tr =
     (if \<exists>a as. fst (daytwo_get_billing_accounts client (tr @ [Sleep 20])) = AccountList (a # as)
      then (fst (daytwo_get_billing_accounts client (tr @ [Sleep 20])),
            tr @ [Sleep 20, ListBillingAccounts])
      else daytwo_wait_for_accounts client rest
             (fst (daytwo_get_billing_accounts client (tr @ [Sleep 20])))
             (tr @ [Sleep 20, ListBillingAccounts]))"
  using daytwo_get_trace [of client "tr @ [Sleep 20]"]
  by (cases "daytwo_get_billing_accounts client (tr @ [Sleep 20])")
     (auto split: accounts_result.splits list.splits)

lemma daytwo_wait_accepted:
  "link_accepted (snd (daytwo_wait_for_accounts client is r tr)) = link_accepted tr"
proof (induction "is" arbitrary: r tr)
  case Nil
  show ?case by simp
next
  case (Cons i rest)
  show ?case by (simp only: daytwo_wait_Cons Cons.IH split: if_splits) simp
qed

lemma daytwo_after_listing_codes:
  "exit_code (fst (daytwo_after_listing client project_id stdin r tr)) \<in> {0, 1}
   \<and> (link_accepted (snd (daytwo_after_listing client project_id stdin r tr))
        \<longleftrightarrow> link_accepted tr
            \<or> exit_code (fst (daytwo_after_listing client project_id stdin r tr)) = 0)"
proof (cases "r = AccountList []")
  case True
  then show ?thesis
    using daytwo_handle_result_codes
            [of client project_id stdin
                "fst (daytwo_wait_for_accounts client [0..<6] r tr)"
                "snd (daytwo_wait_for_accounts client [0..<6] r tr)"]
    by (simp add: daytwo_after_listing_def split_beta daytwo_wait_accepted
          del: daytwo_wait_for_accounts.simps)
next
  case False
  then show ?thesis
    using daytwo_handle_result_codes [of client project_id stdin r tr]
    by (simp add: daytwo_after_listing_def)
qed

lemma daytwo_enable_trace:
  "snd (daytwo_enable_billing_api client project_id tr) = tr @ [GcloudServicesEnable project_id]"
  by (simp add: daytwo_enable_billing_api_def split: option.splits exn.splits)

lemma daytwo_search_and_link_codes:
  "exit_code (fst (daytwo_search_and_link client project_id stdin tr)) \<in> {0, 1}
   \<and> (link_accepted (snd (daytwo_search_and_link client project_id stdin tr))
        \<longleftrightarrow> link_accepted tr
            \<or> exit_code (fst (daytwo_search_and_link client project_id stdin tr)) = 0)"
proof -
  define tr1 where "tr1 = tr @ [ListBillingAccounts]"
  define r where "r = fst (daytwo_get_billing_accounts client tr)"
  have got: "daytwo_get_billing_accounts client tr = (r, tr1)"
    using daytwo_get_trace [of client tr] by (simp add: r_def tr1_def prod_eq_iff)
  show ?thesis
  proof (cases "r = Sentinel ''API_DISABLED_OR_PROPAGATING''")
    case False
    then show ?thesis
      using got daytwo_after_listing_codes [of client project_id stdin r tr1]
      by (simp add: daytwo_search_and_link_def tr1_def)
  next
    case True
    define tr2 where "tr2 = tr1 @ [GcloudServicesEnable project_id]"
    obtain enabled where enabled:
      "daytwo_enable_billing_api client project_id tr1 = (enabled, tr2)"
      using daytwo_enable_trace [of client project_id tr1] by (simp add: tr2_def prod_eq_iff)
    show ?thesis
    proof (cases enabled)
      case (Inl e)
      then show ?thesis
        using got True enabled
        by (simp add: daytwo_search_and_link_def tr2_def tr1_def)
    next
      case (Inr ok)
      show ?thesis
      proof (cases ok)
        case False
        then show ?thesis
          using got True enabled Inr
          by (simp add: daytwo_search_and_link_def tr2_def tr1_def)
      next
        case ok: True
        define r' where "r' = fst (daytwo_retry_listing client [0..<5] 15 r tr2)"
        define tr' where "tr' = snd (daytwo_retry_listing client [0..<5] 15 r tr2)"
        have acc: "link_accepted tr' = link_accepted tr"
          by (simp add: tr'_def daytwo_retry_accepted tr2_def tr1_def
                del: daytwo_retry_listing.simps)
        have "daytwo_search_and_link client project_id stdin tr =
                daytwo_after_listing client project_id stdin r' tr'"
          using got True enabled Inr ok
          by (simp add: daytwo_search_and_link_def split_beta r'_def tr'_def
                del: daytwo_retry_listing.simps)
        then show ?thesis
          using daytwo_after_listing_codes [of client project_id stdin r' tr'] acc
          by simp
      qed
    qed
  qed
qed

lemma check_current_billing_trace:
  "snd (check_current_billing client project_id tr) =
     tr @ [GetProjectBillingInfo (project_resource project_id)]"
  by (simp add: check_current_billing_def Let_def split: sum.splits exn.splits)

lemma daytwo_main_codes:
  "exit_code (fst (daytwo_main client stdin tr)) \<in> {0, 1}"
proof (cases "get_project_id client")
  case (Inl code)
  then have "code = 1"
    by (auto simp: get_project_id_def Let_def split: file_state.splits if_splits)
  then show ?thesis using Inl by (simp add: daytwo_main_def)
next
  case (Inr project_id)
  then show ?thesis
    using daytwo_search_and_link_codes
            [of client project_id stdin "snd (check_current_billing client project_id tr)"]
    by (auto simp: daytwo_main_def split_beta)
qed

lemma daytwo_main_success:
  assumes "get_project_id client = Inr project_id"
  shows "exit_code (fst (daytwo_main client stdin [])) = 0
           \<longleftrightarrow> fst (fst (check_current_billing client project_id []))
               \<or> link_accepted (snd (daytwo_main client stdin []))"
  using assms
        daytwo_search_and_link_codes
          [of client project_id stdin "snd (check_current_billing client project_id [])"]
        check_current_billing_trace [of client project_id "[]"]
  by (auto simp: daytwo_main_def split_beta)


subsection \<open>Unrecoverable conditions\<close>

lemma listing_failure_sentinel:
  assumes "list_billing_accounts client tr = Inl e"
  shows "\<exists>s. fst (dayone_get_billing_accounts client tr) = Sentinel s"
    and "\<exists>s. fst (daytwo_get_billing_accounts client tr) = Sentinel s"
  using assms
  by (cases e; simp add: dayone_get_billing_accounts_def daytwo_get_billing_accounts_def
        classify_listing_failure_def Let_def)+

lemma listing_success:
  assumes "list_billing_accounts client tr = Inr accounts"
  shows "fst (dayone_get_billing_accounts client tr) = AccountList accounts"
    and "fst (daytwo_get_billing_accounts client tr) = AccountList accounts"
  using assms
  by (simp_all add: dayone_get_billing_accounts_def daytwo_get_billing_accounts_def)

lemma daytwo_handle_Sentinel:
  "daytwo_handle_result client project_id stdin (Sentinel s) tr = (Return 1, tr)"
  by (simp add: daytwo_handle_result_def)

lemma daytwo_handle_none_open:
  "filter is_open accounts = [] \<Longrightarrow>
   daytwo_handle_result client project_id stdin (AccountList accounts) tr = (Return 1, tr)"
  by (simp add: daytwo_handle_result_def Let_def)

lemma dayone_handle_Sentinel:
  "dayone_handle_result client project_id stdin (Sentinel s) tr = (None, tr)"
  by (simp add: dayone_handle_result_def)

lemma dayone_handle_none_open:
  "filter is_open accounts = [] \<Longrightarrow>
   dayone_handle_result client project_id stdin (AccountList accounts) tr = (None, tr)"
  by (simp add: dayone_handle_result_def Let_def)

lemma dayone_wait_Cons:
  "dayone_wait_for_accounts client (i # rest) r tr =
     (if \<exists>a as. fst (dayone_get_billing_accounts client (tr @ [Sleep 20])) = AccountList (a # as)
      then (fst (dayone_get_billing_accounts client (tr @ [Sleep 20])),
            tr @ [Sleep 20, ListBillingAccounts])
      else dayone_wait_for_accounts client rest
             (fst (dayone_get_billing_accounts client (tr @ [Sleep 20])))
             (tr @ [Sleep 20, ListBillingAccounts]))"
  using dayone_get_trace [of client "tr @ [Sleep 20]"]
  by (cases "dayone_get_billing_accounts client (tr @ [Sleep 20])")
     (auto split: accounts_result.splits list.splits)

lemma daytwo_wait_none_open:
  assumes "\<forall>tr'. \<exists>accounts. list_billing_accounts client tr' = Inr accounts
                             \<and> filter is_open accounts = []"
      and "filter is_open accounts0 = []"
  shows "\<exists>accounts. fst (daytwo_wait_for_accounts client is (AccountList accounts0) tr)
                       = AccountList accounts \<and> filter is_open accounts = []"
  using assms(2)
proof (induction "is" arbitrary: accounts0 tr)
  case Nil
  then show ?case by simp
next
  case (Cons i rest)
  obtain accounts where accounts:
    "list_billing_accounts client (tr @ [Sleep 20]) = Inr accounts" "filter is_open accounts = []"
    using assms(1) by blast
  have got: "fst (daytwo_get_billing_accounts client (tr @ [Sleep 20])) = AccountList accounts"
    using accounts(1) by (rule listing_success)
  show ?case
    using Cons.IH [OF accounts(2)] accounts(2)
    by (simp only: daytwo_wait_Cons got split: if_splits) auto
qed

lemma dayone_wait_none_open:
  assumes "\<forall>tr'. \<exists>accounts. list_billing_accounts client tr' = Inr accounts
                             \<and> filter is_open accounts = []"
      and "filter is_open accounts0 = []"
  shows "\<exists>accounts. fst (dayone_wait_for_accounts client is (AccountList accounts0) tr)
                       = AccountList accounts \<and> filter is_open accounts = []"
  using assms(2)
proof (induction "is" arbitrary: accounts0 tr)
  case Nil
  then show ?case by simp
next
  case (Cons i rest)
  obtain accounts where accounts:
    "list_billing_accounts client (tr @ [Sleep 20]) = Inr accounts" "filter is_open accounts = []"
    using assms(1) by blast
  have got: "fst (dayone_get_billing_accounts client (tr @ [Sleep 20])) = AccountList accounts"
    using accounts(1) by (rule listing_success)
  show ?case
    using Cons.IH [OF accounts(2)] accounts(2)
    by (simp only: dayone_wait_Cons got split: if_splits) auto
qed

lemma daytwo_after_listing_none_open:
  assumes "\<forall>tr'. \<exists>accounts. list_billing_accounts client tr' = Inr accounts
                             \<and> filter is_open accounts = []"
      and "filter is_open accounts0 = []"
  shows "fst (daytwo_after_listing client project_id stdin (AccountList accounts0) tr) = Return 1"
proof (cases "accounts0 = []")
  case True
  obtain accounts where
    "fst (daytwo_wait_for_accounts client [0..<6] (AccountList accounts0) tr) = AccountList accounts"
    "filter is_open accounts = []"
    using daytwo_wait_none_open [OF assms] by blast
  then show ?thesis
    using True
    by (simp add: daytwo_after_listing_def split_beta daytwo_handle_none_open
          del: daytwo_wait_for_accounts.simps)
next
  case False
  then show ?thesis
    using assms(2) by (simp add: daytwo_after_listing_def daytwo_handle_none_open)
qed

lemma dayone_after_listing_none_open:
  assumes "\<forall>tr'. \<exists>accounts. list_billing_accounts client tr' = Inr accounts
                             \<and> filter is_open accounts = []"
      and "filter is_open accounts0 = []"
  shows "fst (dayone_after_listing client project_id stdin (AccountList accounts0) tr) = None"
proof (cases "accounts0 = []")
  case True
  obtain accounts where
    "fst (dayone_wait_for_accounts client [0..<6] (AccountList accounts0) tr) = AccountList accounts"
    "filter is_open accounts = []"
    using dayone_wait_none_open [OF assms] by blast
  then show ?thesis
    using True
    by (simp add: dayone_after_listing_def split_beta dayone_handle_none_open
          del: dayone_wait_for_accounts.simps)
next
  case False
  then show ?thesis
    using assms(2) by (simp add: dayone_after_listing_def dayone_handle_none_open)
qed

lemma daytwo_after_listing_Sentinel:
  "daytwo_after_listing client project_id stdin (Sentinel s) tr = (Return 1, tr)"
  by (simp add: daytwo_after_listing_def daytwo_handle_Sentinel)

lemma dayone_after_listing_Sentinel:
  "dayone_after_listing client project_id stdin (Sentinel s) tr = (None, tr)"
  by (simp add: dayone_after_listing_def dayone_handle_Sentinel)

subsection \<open>The two main flows\<close>

lemma project_id_cases:
  "(get_project_id client = Inl 1 \<and> get_project_id_from_file client = None
      \<and> (project_file client = FileMissing \<or> (\<exists>e. project_file client = FileError e)
           \<or> (\<exists>text. project_file client = FileContent text \<and> strip text = [])))
   \<or> (\<exists>project_id. get_project_id client = Inr project_id
          \<and> get_project_id_from_file client = Some project_id
          \<and> project_id \<noteq> []
          \<and> (\<exists>text. project_file client = FileContent text \<and> strip text = project_id))"
  by (cases "project_file client") (auto simp: get_project_id_def get_project_id_from_file_def Let_def)

lemma daytwo_main_not_enabled:
  assumes "get_project_id client = Inr project_id"
      and "\<not> fst (fst (check_current_billing client project_id tr))"
  shows "daytwo_main client stdin tr =
           daytwo_search_and_link client project_id stdin
             (tr @ [GetProjectBillingInfo (project_resource project_id)])"
  using assms check_current_billing_trace [of client project_id tr]
  by (simp add: daytwo_main_def split_beta)

lemma daytwo_search_never_active:
  assumes "\<forall>tr'. api_propagating client tr'"
  shows "exit_code (fst (daytwo_search_and_link client project_id stdin tr)) = 1"
proof -
  define tr1 where "tr1 = tr @ [ListBillingAccounts]"
  have "fst (daytwo_get_billing_accounts client tr) = Sentinel ''API_DISABLED_OR_PROPAGATING''"
    using assms by (simp add: daytwo_get_propagating)
  then have got: "daytwo_get_billing_accounts client tr =
                    (Sentinel ''API_DISABLED_OR_PROPAGATING'', tr1)"
    using daytwo_get_trace [of client tr] by (simp add: tr1_def prod_eq_iff)
  define tr2 where "tr2 = tr1 @ [GcloudServicesEnable project_id]"
  obtain enabled where enabled:
    "daytwo_enable_billing_api client project_id tr1 = (enabled, tr2)"
    using daytwo_enable_trace [of client project_id tr1] by (simp add: tr2_def prod_eq_iff)
  have retried: "fst (daytwo_retry_listing client [0..<5] 15 r tr2)
                   = Sentinel ''API_DISABLED_OR_PROPAGATING''" for r
    unfolding daytwo_retry_never_active [OF assms] by simp
  show ?thesis
  proof (cases enabled)
    case (Inl e)
    then show ?thesis using got enabled by (simp add: daytwo_search_and_link_def)
  next
    case (Inr ok)
    then show ?thesis
      using got enabled retried
      by (cases ok)
         (simp_all add: daytwo_search_and_link_def split_beta daytwo_after_listing_Sentinel
            del: daytwo_retry_listing.simps)
  qed
qed

lemma daytwo_search_denied:
  assumes "\<forall>tr'. (\<exists>e. list_billing_accounts client tr' = Inl e) \<and> \<not> api_propagating client tr'"
  shows "fst (daytwo_search_and_link client project_id stdin tr) = Return 1"
proof -
  obtain s where s: "fst (daytwo_get_billing_accounts client tr) = Sentinel s"
    using assms listing_failure_sentinel(2) by blast
  have "s \<noteq> ''API_DISABLED_OR_PROPAGATING''"
    using assms s daytwo_get_propagating [of client tr] by auto
  then show ?thesis
    using s
    by (simp add: daytwo_search_and_link_def split_beta daytwo_after_listing_Sentinel)
qed

lemma daytwo_search_none_open:
  assumes "\<forall>tr'. \<exists>accounts. list_billing_accounts client tr' = Inr accounts
                             \<and> filter is_open accounts = []"
  shows "fst (daytwo_search_and_link client project_id stdin tr) = Return 1"
proof -
  obtain accounts where accounts:
    "list_billing_accounts client tr = Inr accounts" "filter is_open accounts = []"
    using assms by blast
  have got: "fst (daytwo_get_billing_accounts client tr) = AccountList accounts"
    using accounts(1) by (rule listing_success)
  show ?thesis
    using got daytwo_after_listing_none_open [OF assms accounts(2)]
    by (simp add: daytwo_search_and_link_def split_beta)
qed

lemma dayone_main_outcomes:
  "fst (dayone_main client stdin tr) = EndOfScript
   \<or> (\<exists>e. fst (dayone_main client stdin tr) = Uncaught e)"
  by (auto simp: dayone_main_def split_beta Let_def split: option.splits)

lemma dayone_main_no_project_id:
  "get_project_id_from_file client = None \<Longrightarrow> dayone_main client stdin tr = (EndOfScript, tr)"
  by (simp add: dayone_main_def)

lemma dayone_enable_trace:
  "snd (dayone_enable_billing_api client project_id tr) = tr @ [GcloudServicesEnable project_id]"
  by (simp add: dayone_enable_billing_api_def split: option.splits exn.splits)

lemma dayone_main_never_active:
  assumes "get_project_id_from_file client = Some project_id"
      and "\<forall>tr'. api_propagating client tr'"
      and "\<forall>tr'. gcloud_services_enable client tr' project_id = None"
  shows "fst (dayone_main client stdin tr) = EndOfScript"
proof -
  define tr1 where "tr1 = tr @ [ListBillingAccounts]"
  have "fst (dayone_get_billing_accounts client tr) = Sentinel ''API_DISABLED_OR_NO_PERMISSION''"
    using assms(2) by (simp add: dayone_get_propagating)
  then have got: "dayone_get_billing_accounts client tr =
                    (Sentinel ''API_DISABLED_OR_NO_PERMISSION'', tr1)"
    using dayone_get_trace [of client tr] by (simp add: tr1_def prod_eq_iff)
  have enabled: "dayone_enable_billing_api client project_id tr1 =
                   (Inr True, tr1 @ [GcloudServicesEnable project_id])"
    using assms(3) by (simp add: dayone_enable_billing_api_def)
  have retried: "fst (dayone_retry_listing client [0..<5] 15 r tr') 
                   = Sentinel ''API_DISABLED_OR_NO_PERMISSION''" for r tr'
    unfolding dayone_retry_never_active [OF assms(2)] by simp
  show ?thesis
    using assms(1) got enabled retried
    by (simp add: dayone_main_def split_beta dayone_after_listing_Sentinel
          del: dayone_retry_listing.simps)
qed

lemma dayone_main_denied:
  assumes "get_project_id_from_file client = Some project_id"
      and "\<forall>tr'. (\<exists>e. list_billing_accounts client tr' = Inl e) \<and> \<not> api_propagating client tr'"
  shows "fst (dayone_main client stdin tr) = EndOfScript"
proof -
  obtain s where s: "fst (dayone_get_billing_accounts client tr) = Sentinel s"
    using assms(2) listing_failure_sentinel(1) by blast
  have "s \<noteq> ''API_DISABLED_OR_NO_PERMISSION''"
    using assms(2) s dayone_get_propagating [of client tr] by auto
  then show ?thesis
    using s assms(1)
    by (simp add: dayone_main_def split_beta dayone_after_listing_Sentinel)
qed

lemma dayone_main_none_open:
  assumes "get_project_id_from_file client = Some project_id"
      and "\<forall>tr'. \<exists>accounts. list_billing_accounts client tr' = Inr accounts
                             \<and> filter is_open accounts = []"
  shows "fst (dayone_main client stdin tr) = EndOfScript"
proof -
  obtain accounts where accounts:
    "list_billing_accounts client tr = Inr accounts" "filter is_open accounts = []"
    using assms(2) by blast
  have got: "fst (dayone_get_billing_accounts client tr) = AccountList accounts"
    using accounts(1) by (rule listing_success)
  show ?thesis
    using got assms(1) dayone_after_listing_none_open [OF assms(2) accounts(2)]
    by (simp add: dayone_main_def split_beta)
qed

section \<open>The retries in the main flows\<close>

lemma dayone_after_listing_settled:
  "settled r \<Longrightarrow> dayone_after_listing client project_id stdin r tr = (None, tr)"
  by (cases r)
     (auto simp: settled_def dayone_after_listing_def dayone_handle_Sentinel
        dayone_handle_none_open)

lemma daytwo_after_listing_settled:
  "settled r \<Longrightarrow> daytwo_after_listing client project_id stdin r tr = (Return 1, tr)"
  by (cases r)
     (auto simp: settled_def daytwo_after_listing_def daytwo_handle_Sentinel
        daytwo_handle_none_open)

lemma listing_settled:
  assumes "\<forall>tr'. \<not> api_propagating client tr' \<longrightarrow>
             (\<exists>e. list_billing_accounts client tr' = Inl e)
             \<or> (\<exists>accounts. list_billing_accounts client tr' = Inr accounts
                   \<and> accounts \<noteq> [] \<and> filter is_open accounts = [])"
  shows "settled (fst (dayone_get_billing_accounts client tr))"
    and "settled (fst (daytwo_get_billing_accounts client tr))"
proof -
  show "settled (fst (dayone_get_billing_accounts client tr))"
  proof (cases "api_propagating client tr")
    case True
    then show ?thesis by (simp add: dayone_get_propagating [symmetric] settled_def)
  next
    case False
    then consider e where "list_billing_accounts client tr = Inl e"
      | accounts where "list_billing_accounts client tr = Inr accounts"
          "accounts \<noteq> []" "filter is_open accounts = []"
      using assms by blast
    then show ?thesis
    proof cases
      case 1
      then show ?thesis using listing_failure_sentinel(1) by (fastforce simp: settled_def)
    next
      case 2
      then show ?thesis using listing_success(1) [OF 2(1)] by (simp add: settled_def)
    qed
  qed
  show "settled (fst (daytwo_get_billing_accounts client tr))"
  proof (cases "api_propagating client tr")
    case True
    then show ?thesis by (simp add: daytwo_get_propagating [symmetric] settled_def)
  next
    case False
    then consider e where "list_billing_accounts client tr = Inl e"
      | accounts where "list_billing_accounts client tr = Inr accounts"
          "accounts \<noteq> []" "filter is_open accounts = []"
      using assms by blast
    then show ?thesis
    proof cases
      case 1
      then show ?thesis using listing_failure_sentinel(2) by (fastforce simp: settled_def)
    next
      case 2
      then show ?thesis using listing_success(2) [OF 2(1)] by (simp add: settled_def)
    qed
  qed
qed

lemma dayone_retry_settled:
  assumes "\<forall>tr'. settled (fst (dayone_get_billing_accounts client tr'))"
      and "settled r"
  shows "settled (fst (dayone_retry_listing client is w r tr))"
  using assms(2)
proof (induction "is" arbitrary: w r tr)
  case Nil
  then show ?case by simp
next
  case (Cons i rest)
  have "settled (Sentinel ''API_DISABLED_OR_NO_PERMISSION'')" by (simp add: settled_def)
  then show ?case
    using assms(1) Cons.IH by (simp only: dayone_retry_Cons split: if_splits) simp
qed

lemma daytwo_retry_settled:
  assumes "\<forall>tr'. settled (fst (daytwo_get_billing_accounts client tr'))"
      and "settled r"
  shows "settled (fst (daytwo_retry_listing client is w r tr))"
  using assms(2)
proof (induction "is" arbitrary: w r tr)
  case Nil
  then show ?case by simp
next
  case (Cons i rest)
  have "settled (Sentinel ''API_DISABLED_OR_PROPAGATING'')" by (simp add: settled_def)
  then show ?case
    using assms(1) Cons.IH by (simp only: daytwo_retry_Cons split: if_splits) simp
qed

lemma dayone_retry_until_active:
  assumes "\<forall>tr'. api_propagating client tr' \<longleftrightarrow> count_list tr' ListBillingAccounts < k"
  shows "snd (dayone_retry_listing client is w r tr) =
           tr @ concat (map (\<lambda>d. [Sleep d, ListBillingAccounts])
                          (take (Suc (k - count_list tr ListBillingAccounts))
                             (dayone_delays (length is) w)))"
proof (induction "is" arbitrary: w r tr)
  case Nil
  show ?case by simp
next
  case (Cons i rest)
  show ?case
  proof (cases "count_list tr ListBillingAccounts < k")
    case True
    then have more: "k - count_list tr ListBillingAccounts
                       = Suc (k - Suc (count_list tr ListBillingAccounts))"
      by simp
    have "api_propagating client (tr @ [Sleep w])" using assms True by simp
    then show ?thesis
      by (simp only: dayone_retry_Cons Cons.IH if_True) (simp add: more)
  next
    case False
    then have "\<not> api_propagating client (tr @ [Sleep w])" using assms by simp
    then show ?thesis
      using False by (simp only: dayone_retry_Cons if_False) simp
  qed
qed

lemma daytwo_retry_until_active:
  assumes "\<forall>tr'. api_propagating client tr' \<longleftrightarrow> count_list tr' ListBillingAccounts < k"
  shows "snd (daytwo_retry_listing client is w r tr) =
           tr @ concat (map (\<lambda>d. [Sleep (of_nat d), ListBillingAccounts])
                          (take (Suc (k - count_list tr ListBillingAccounts))
                             (daytwo_delays (length is) w)))"
proof (induction "is" arbitrary: w r tr)
  case Nil
  show ?case by simp
next
  case (Cons i rest)
  show ?case
  proof (cases "count_list tr ListBillingAccounts < k")
    case True
    then have more: "k - count_list tr ListBillingAccounts
                       = Suc (k - Suc (count_list tr ListBillingAccounts))"
      by simp
    have "api_propagating client (tr @ [Sleep (of_nat w)])" using assms True by simp
    then show ?thesis
      by (simp only: daytwo_retry_Cons Cons.IH if_True) (simp add: more)
  next
    case False
    then have "\<not> api_propagating client (tr @ [Sleep (of_nat w)])" using assms by simp
    then show ?thesis
      using False by (simp only: daytwo_retry_Cons if_False) simp
  qed
qed

lemma dayone_retry_result_last:
  "is \<noteq> [] \<Longrightarrow>
   fst (dayone_retry_listing client is w r tr) =
     fst (dayone_get_billing_accounts client
            (butlast (snd (dayone_retry_listing client is w r tr))))"
proof (induction "is" arbitrary: w r tr)
  case Nil
  then show ?case by simp
next
  case (Cons i rest)
  show ?case
  proof (cases "api_propagating client (tr @ [Sleep w])")
    case False
    then show ?thesis
      by (simp only: dayone_retry_Cons if_False) (simp add: butlast_append)
  next
    case True
    show ?thesis
    proof (cases "rest = []")
      case last: True
      have "fst (dayone_get_billing_accounts client (tr @ [Sleep w]))
              = Sentinel ''API_DISABLED_OR_NO_PERMISSION''"
        using True by (simp add: dayone_get_propagating)
      then show ?thesis
        using True last
        by (simp only: dayone_retry_Cons if_True) (simp add: butlast_append)
    next
      case more: False
      show ?thesis
        using True Cons.IH [OF more] by (simp only: dayone_retry_Cons if_True)
    qed
  qed
qed

lemma daytwo_retry_result_last:
  "is \<noteq> [] \<Longrightarrow>
   fst (daytwo_retry_listing client is w r tr) =
     fst (daytwo_get_billing_accounts client
            (butlast (snd (daytwo_retry_listing client is w r tr))))"
proof (induction "is" arbitrary: w r tr)
  case Nil
  then show ?case by simp
next
  case (Cons i rest)
  show ?case
  proof (cases "api_propagating client (tr @ [Sleep (of_nat w)])")
    case False
    then show ?thesis
      by (simp only: daytwo_retry_Cons if_False) (simp add: butlast_append)
  next
    case True
    show ?thesis
    proof (cases "rest = []")
      case last: True
      have "fst (daytwo_get_billing_accounts client (tr @ [Sleep (of_nat w)]))
              = Sentinel ''API_DISABLED_OR_PROPAGATING''"
        using True by (simp add: daytwo_get_propagating)
      then show ?thesis
        using True last
        by (simp only: daytwo_retry_Cons if_True) (simp add: butlast_append)
    next
      case more: False
      show ?thesis
        using True Cons.IH [OF more] by (simp only: daytwo_retry_Cons if_True)
    qed
  qed
qed

lemma dayone_main_retries:
  assumes project: "get_project_id client = Inr project_id"
      and first: "1 \<le> k"
      and active: "\<forall>tr'. api_propagating client tr' \<longleftrightarrow> count_list tr' ListBillingAccounts < k"
      and enabled: "\<forall>tr'. gcloud_services_enable client tr' project_id = None"
      and tr': "tr' = [ListBillingAccounts, GcloudServicesEnable project_id]
                     @ concat (map (\<lambda>d. [Sleep d, ListBillingAccounts])
                                 (take k [15, 45 / 2, 135 / 4, 405 / 8, 1215 / 16]))"
  shows "dayone_main client stdin [] =
           (case fst (dayone_after_listing client project_id stdin
                        (fst (dayone_get_billing_accounts client (butlast tr'))) tr') of
              None \<Rightarrow> EndOfScript
            | Some e \<Rightarrow> Uncaught e,
            snd (dayone_after_listing client project_id stdin
                   (fst (dayone_get_billing_accounts client (butlast tr'))) tr'))"
proof -
  have from_file: "get_project_id_from_file client = Some project_id"
    using project project_id_cases [of client] by auto
  have "api_propagating client []" using active first by simp
  then have got: "dayone_get_billing_accounts client [] =
                (Sentinel ''API_DISABLED_OR_NO_PERMISSION'', [ListBillingAccounts])"
    using dayone_get_trace [of client "[]"] dayone_get_propagating [of client "[]"]
    by (simp add: prod_eq_iff)
  define tr2 where "tr2 = [ListBillingAccounts, GcloudServicesEnable project_id]"
  define retried where "retried = dayone_retry_listing client [0..<5] 15
                                    (Sentinel ''API_DISABLED_OR_NO_PERMISSION'') tr2"
  have en: "dayone_enable_billing_api client project_id [ListBillingAccounts] = (Inr True, tr2)"
    using enabled by (simp add: dayone_enable_billing_api_def tr2_def)
  have "Suc (k - count_list tr2 ListBillingAccounts) = k"
    using first by (simp add: tr2_def)
  then have "snd retried = tr2 @ concat (map (\<lambda>d. [Sleep d, ListBillingAccounts])
                                         (take k (dayone_delays (length [0..<5]) 15)))"
    unfolding retried_def dayone_retry_until_active [OF active] by simp
  then have trace: "snd retried = tr'"
    by (simp only: length_upt_5 dayone_delays_5 tr2_def tr')
  have "[0..<5] \<noteq> ([] :: nat list)" by simp
  then have result: "fst retried = fst (dayone_get_billing_accounts client (butlast tr'))"
    unfolding retried_def trace [symmetric, unfolded retried_def]
    by (rule dayone_retry_result_last)
  have "dayone_main client stdin [] =
          (case fst (dayone_after_listing client project_id stdin (fst retried) (snd retried)) of
              None \<Rightarrow> EndOfScript
            | Some e \<Rightarrow> Uncaught e,
            snd (dayone_after_listing client project_id stdin (fst retried) (snd retried)))"
    using from_file got en
    by (simp add: dayone_main_def split_beta retried_def split: option.splits
          del: dayone_retry_listing.simps)
  then show ?thesis
    by (simp only: trace result)
qed

lemma daytwo_main_retries:
  assumes project: "get_project_id client = Inr project_id"
      and first: "1 \<le> k"
      and active: "\<forall>tr'. api_propagating client tr' \<longleftrightarrow> count_list tr' ListBillingAccounts < k"
      and enabled: "\<forall>tr'. gcloud_services_enable client tr' project_id = None"
      and off: "\<not> fst (fst (check_current_billing client project_id []))"
      and tr': "tr' = [GetProjectBillingInfo (project_resource project_id),
                      ListBillingAccounts, GcloudServicesEnable project_id]
                     @ concat (map (\<lambda>d. [Sleep d, ListBillingAccounts])
                                 (take k [15, 22, 33, 49, 73]))"
  shows "daytwo_main client stdin [] =
           daytwo_after_listing client project_id stdin
             (fst (daytwo_get_billing_accounts client (butlast tr'))) tr'"
proof -
  define pn where "pn = project_resource project_id"
  have "api_propagating client [GetProjectBillingInfo pn]" using active first by simp
  then have got: "daytwo_get_billing_accounts client [GetProjectBillingInfo pn] =
                (Sentinel ''API_DISABLED_OR_PROPAGATING'',
                 [GetProjectBillingInfo pn, ListBillingAccounts])"
    using daytwo_get_trace [of client "[GetProjectBillingInfo pn]"]
          daytwo_get_propagating [of client "[GetProjectBillingInfo pn]"]
    by (simp add: prod_eq_iff)
  have two: "daytwo_main client stdin [] =
               daytwo_search_and_link client project_id stdin [GetProjectBillingInfo pn]"
    using daytwo_main_not_enabled [OF project off] by (simp add: pn_def)
  define tr2 where "tr2 = [GetProjectBillingInfo pn, ListBillingAccounts,
                           GcloudServicesEnable project_id]"
  define retried where "retried = daytwo_retry_listing client [0..<5] 15
                                    (Sentinel ''API_DISABLED_OR_PROPAGATING'') tr2"
  have en: "daytwo_enable_billing_api client project_id
              [GetProjectBillingInfo pn, ListBillingAccounts] = (Inr True, tr2)"
    using enabled by (simp add: daytwo_enable_billing_api_def tr2_def)
  have "Suc (k - count_list tr2 ListBillingAccounts) = k"
    using first by (simp add: tr2_def)
  then have "snd retried = tr2 @ concat (map (\<lambda>d. [Sleep (of_nat d), ListBillingAccounts])
                                         (take k (daytwo_delays (length [0..<5]) 15)))"
    unfolding retried_def daytwo_retry_until_active [OF active] by simp
  moreover have "map (\<lambda>d. [Sleep (of_nat d), ListBillingAccounts]) (take k [15, 22, 33, 49, 73])
                   = map (\<lambda>d. [Sleep d, ListBillingAccounts]) (take k [15, 22, 33, 49, 73])"
    by (simp add: take_map [symmetric])
  ultimately have trace: "snd retried = tr'"
    by (simp only: length_upt_5 daytwo_delays_5 tr2_def tr' pn_def)
  have "[0..<5] \<noteq> ([] :: nat list)" by simp
  then have result: "fst retried = fst (daytwo_get_billing_accounts client (butlast tr'))"
    unfolding retried_def trace [symmetric, unfolded retried_def]
    by (rule daytwo_retry_result_last)
  have "daytwo_search_and_link client project_id stdin [GetProjectBillingInfo pn] =
          daytwo_after_listing client project_id stdin (fst retried) (snd retried)"
    using got en
    by (simp add: daytwo_search_and_link_def split_beta retried_def
          del: daytwo_retry_listing.simps)
  then show ?thesis
    using two by (simp only: trace result)
qed

lemma main_no_retry:
  assumes project: "get_project_id client = Inr project_id"
      and first: "1 \<le> k"
      and active: "\<forall>tr'. api_propagating client tr' \<longleftrightarrow> count_list tr' ListBillingAccounts < k"
      and failing: "\<forall>tr'. gcloud_services_enable client tr' project_id = Some FileNotFoundError
                  \<or> (\<exists>err. gcloud_services_enable client tr' project_id
                              = Some (CalledProcessError err))"
  shows "dayone_main client stdin [] =
           (EndOfScript, [ListBillingAccounts, GcloudServicesEnable project_id])"
    and "\<not> fst (fst (check_current_billing client project_id [])) \<Longrightarrow>
         daytwo_main client stdin [] =
           (Return 1,
            [GetProjectBillingInfo (project_resource project_id),
             ListBillingAccounts, GcloudServicesEnable project_id])"
proof -
  define pn where "pn = project_resource project_id"
  have from_file: "get_project_id_from_file client = Some project_id"
    using project project_id_cases [of client] by auto
  have disabled: "api_propagating client tr'" if "count_list tr' ListBillingAccounts = 0" for tr'
    using active first that by simp
  have got1: "dayone_get_billing_accounts client [] =
                (Sentinel ''API_DISABLED_OR_NO_PERMISSION'', [ListBillingAccounts])"
    using dayone_get_trace [of client "[]"] dayone_get_propagating [of client "[]"]
          disabled [of "[]"]
    by (simp add: prod_eq_iff)
  have got2: "daytwo_get_billing_accounts client [GetProjectBillingInfo pn] =
                (Sentinel ''API_DISABLED_OR_PROPAGATING'',
                 [GetProjectBillingInfo pn, ListBillingAccounts])"
    using daytwo_get_trace [of client "[GetProjectBillingInfo pn]"]
          daytwo_get_propagating [of client "[GetProjectBillingInfo pn]"]
          disabled [of "[GetProjectBillingInfo pn]"]
    by (simp add: prod_eq_iff)
  have "gcloud_services_enable client [ListBillingAccounts] project_id = Some FileNotFoundError
        \<or> (\<exists>err. gcloud_services_enable client [ListBillingAccounts] project_id
                    = Some (CalledProcessError err))"
    using failing by blast
  then have "dayone_enable_billing_api client project_id [ListBillingAccounts] =
          (Inr False, [ListBillingAccounts, GcloudServicesEnable project_id])"
    by (auto simp: dayone_enable_billing_api_def)
  then show "dayone_main client stdin [] =
            (EndOfScript, [ListBillingAccounts, GcloudServicesEnable project_id])"
    using from_file got1
    by (simp add: dayone_main_def split_beta dayone_after_listing_Sentinel)
  assume off: "\<not> fst (fst (check_current_billing client project_id []))"
  have two: "daytwo_main client stdin [] =
               daytwo_search_and_link client project_id stdin [GetProjectBillingInfo pn]"
    using daytwo_main_not_enabled [OF project off] by (simp add: pn_def)
  have "gcloud_services_enable client [GetProjectBillingInfo pn, ListBillingAccounts] project_id
          = Some FileNotFoundError
        \<or> (\<exists>err. gcloud_services_enable client
                      [GetProjectBillingInfo pn, ListBillingAccounts] project_id
                    = Some (CalledProcessError err))"
    using failing by blast
  then have "daytwo_enable_billing_api client project_id
          [GetProjectBillingInfo pn, ListBillingAccounts] =
          (Inr False, [GetProjectBillingInfo pn, ListBillingAccounts,
                       GcloudServicesEnable project_id])"
    by (auto simp: daytwo_enable_billing_api_def)
  then have "daytwo_search_and_link client project_id stdin [GetProjectBillingInfo pn]
          = (Return 1, [GetProjectBillingInfo pn, ListBillingAccounts,
                       GcloudServicesEnable project_id])"
    using got2 by (simp add: daytwo_search_and_link_def split_beta)
  then show "daytwo_main client stdin [] =
                 (Return 1,
                  [GetProjectBillingInfo (project_resource project_id),
                   ListBillingAccounts, GcloudServicesEnable project_id])"
    using two by (simp add: pn_def)
qed

lemma take_3_dayone: "take 3 [15, 45 / 2, 135 / 4, 405 / 8, 1215 / 16 :: rat] = [15, 45 / 2, 135 / 4]"
  by (simp add: numeral_3_eq_3)

lemma take_3_daytwo: "take 3 [15, 22, 33, 49, 73 :: rat] = [15, 22, 33]"
  by (simp add: numeral_3_eq_3)


text \<open>
  Claim C6, as stated, fails for day two: its delay is cut to an integer after each
  multiplication. On a service whose API never becomes active, the day-two script
  sleeps 15, 22, 33, 49 and 73 seconds, not 15, 22.5, 33.75, 50.625 and 75.9375.
\<close>

theorem daytwo_retry_delays_counterexample:
  "sleeps (snd (daytwo_main disabled_api_client [] [])) = [15, 22, 33, 49, 73]"
  by code_simp

text \<open>
  Claim C6, amended. Take a run from the start with a readable project id, on a
  service where the API reads as disabled for exactly the first \<open>k\<close> listings of the
  run (\<open>k\<close> at least 1). If the request to enable the API succeeds, the script retries
  the listing \<open>k\<close> times, five at most, each retry after a sleep, and then goes on
  with the result of the last of these listings: day one sleeps the first \<open>k\<close> of 15,
  22.5, 33.75, 50.625, 75.9375 (each delay the previous one times 1.5), day two the
  first \<open>k\<close> of 15, 22, 33, 49, 73 (each delay the previous one times 1.5, cut to an
  integer). When a listing that gets through ends the search (a failure, or accounts
  none of which is open), these are all the calls and sleeps of the run. If the
  request to enable the API fails, there is no retry at all.
\<close>

theorem retry_delays_of_main:
  assumes project: "get_project_id client = Inr project_id"
      and first: "1 \<le> k"
      and active: "\<forall>tr'. api_propagating client tr' \<longleftrightarrow> count_list tr' ListBillingAccounts < k"
  shows "((\<forall>tr'. gcloud_services_enable client tr' project_id = None) \<longrightarrow>
            (let tr1 = [ListBillingAccounts, GcloudServicesEnable project_id]
                       @ concat (map (\<lambda>d. [Sleep d, ListBillingAccounts])
                                   (take k [15, 45 / 2, 135 / 4, 405 / 8, 1215 / 16]));
                 tr2 = [GetProjectBillingInfo (project_resource project_id),
                        ListBillingAccounts, GcloudServicesEnable project_id]
                       @ concat (map (\<lambda>d. [Sleep d, ListBillingAccounts])
                                   (take k [15, 22, 33, 49, 73]));
                 r1 = fst (dayone_get_billing_accounts client (butlast tr1));
                 r2 = fst (daytwo_get_billing_accounts client (butlast tr2))
             in dayone_main client stdin [] =
                  (case fst (dayone_after_listing client project_id stdin r1 tr1) of
                     None \<Rightarrow> EndOfScript
                   | Some e \<Rightarrow> Uncaught e,
                   snd (dayone_after_listing client project_id stdin r1 tr1))
                \<and> (\<not> fst (fst (check_current_billing client project_id [])) \<longrightarrow>
                     daytwo_main client stdin [] =
                       daytwo_after_listing client project_id stdin r2 tr2)
                \<and> ((\<forall>tr'. \<not> api_propagating client tr' \<longrightarrow>
                        (\<exists>e. list_billing_accounts client tr' = Inl e)
                        \<or> (\<exists>accounts. list_billing_accounts client tr' = Inr accounts
                              \<and> accounts \<noteq> [] \<and> filter is_open accounts = [])) \<longrightarrow>
                     dayone_main client stdin [] = (EndOfScript, tr1)
                     \<and> (\<not> fst (fst (check_current_billing client project_id [])) \<longrightarrow>
                          daytwo_main client stdin [] = (Return 1, tr2)))))
       \<and> ((\<forall>tr'. gcloud_services_enable client tr' project_id = Some FileNotFoundError
                  \<or> (\<exists>err. gcloud_services_enable client tr' project_id
                              = Some (CalledProcessError err))) \<longrightarrow>
            dayone_main client stdin [] =
              (EndOfScript, [ListBillingAccounts, GcloudServicesEnable project_id])
            \<and> (\<not> fst (fst (check_current_billing client project_id [])) \<longrightarrow>
                 daytwo_main client stdin [] =
                   (Return 1,
                    [GetProjectBillingInfo (project_resource project_id),
                     ListBillingAccounts, GcloudServicesEnable project_id])))"
proof (intro conjI impI)
  assume enabled: "\<forall>tr'. gcloud_services_enable client tr' project_id = None"
  define tr1 where "tr1 = [ListBillingAccounts, GcloudServicesEnable project_id]
                       @ concat (map (\<lambda>d. [Sleep d, ListBillingAccounts])
                                   (take k [15, 45 / 2, 135 / 4, 405 / 8, 1215 / 16]))"
  define tr2 where "tr2 = [GetProjectBillingInfo (project_resource project_id),
                        ListBillingAccounts, GcloudServicesEnable project_id]
                       @ concat (map (\<lambda>d. [Sleep d, ListBillingAccounts])
                                   (take k [15, 22, 33, 49, 73 :: rat]))"
  define r1 where "r1 = fst (dayone_get_billing_accounts client (butlast tr1))"
  define r2 where "r2 = fst (daytwo_get_billing_accounts client (butlast tr2))"
  have one: "dayone_main client stdin [] =
                  (case fst (dayone_after_listing client project_id stdin r1 tr1) of
                     None \<Rightarrow> EndOfScript
                   | Some e \<Rightarrow> Uncaught e,
                   snd (dayone_after_listing client project_id stdin r1 tr1))"
    unfolding r1_def by (rule dayone_main_retries [OF project first active enabled tr1_def])
  have two: "daytwo_main client stdin [] = daytwo_after_listing client project_id stdin r2 tr2"
    if "\<not> fst (fst (check_current_billing client project_id []))"
    unfolding r2_def by (rule daytwo_main_retries [OF project first active enabled that tr2_def])
  have settled_one: "dayone_main client stdin [] = (EndOfScript, tr1)"
    and settled_two: "\<not> fst (fst (check_current_billing client project_id [])) \<longrightarrow>
                      daytwo_main client stdin [] = (Return 1, tr2)"
    if final: "\<forall>tr'. \<not> api_propagating client tr' \<longrightarrow>
                        (\<exists>e. list_billing_accounts client tr' = Inl e)
                        \<or> (\<exists>accounts. list_billing_accounts client tr' = Inr accounts
                              \<and> accounts \<noteq> [] \<and> filter is_open accounts = [])"
  proof -
    have "settled r1" unfolding r1_def by (rule listing_settled(1) [OF final])
    then show "dayone_main client stdin [] = (EndOfScript, tr1)"
      using one by (simp add: dayone_after_listing_settled)
    have "settled r2" unfolding r2_def by (rule listing_settled(2) [OF final])
    then show "\<not> fst (fst (check_current_billing client project_id [])) \<longrightarrow>
                      daytwo_main client stdin [] = (Return 1, tr2)"
      using two by (simp add: daytwo_after_listing_settled)
  qed
  show "let tr1 = [ListBillingAccounts, GcloudServicesEnable project_id]
                       @ concat (map (\<lambda>d. [Sleep d, ListBillingAccounts])
                                   (take k [15, 45 / 2, 135 / 4, 405 / 8, 1215 / 16]));
                 tr2 = [GetProjectBillingInfo (project_resource project_id),
                        ListBillingAccounts, GcloudServicesEnable project_id]
                       @ concat (map (\<lambda>d. [Sleep d, ListBillingAccounts])
                                   (take k [15, 22, 33, 49, 73]));
                 r1 = fst (dayone_get_billing_accounts client (butlast tr1));
                 r2 = fst (daytwo_get_billing_accounts client (butlast tr2))
             in dayone_main client stdin [] =
                  (case fst (dayone_after_listing client project_id stdin r1 tr1) of
                     None \<Rightarrow> EndOfScript
                   | Some e \<Rightarrow> Uncaught e,
                   snd (dayone_after_listing client project_id stdin r1 tr1))
                \<and> (\<not> fst (fst (check_current_billing client project_id [])) \<longrightarrow>
                     daytwo_main client stdin [] =
                       daytwo_after_listing client project_id stdin r2 tr2)
                \<and> ((\<forall>tr'. \<not> api_propagating client tr' \<longrightarrow>
                        (\<exists>e. list_billing_accounts client tr' = Inl e)
                        \<or> (\<exists>accounts. list_billing_accounts client tr' = Inr accounts
                              \<and> accounts \<noteq> [] \<and> filter is_open accounts = [])) \<longrightarrow>
                     dayone_main client stdin [] = (EndOfScript, tr1)
                     \<and> (\<not> fst (fst (check_current_billing client project_id [])) \<longrightarrow>
                          daytwo_main client stdin [] = (Return 1, tr2)))"
    unfolding Let_def tr1_def [symmetric] tr2_def [symmetric] r1_def [symmetric]
      r2_def [symmetric]
    using one two settled_one settled_two by blast
next
  assume failing: "\<forall>tr'. gcloud_services_enable client tr' project_id = Some FileNotFoundError
                  \<or> (\<exists>err. gcloud_services_enable client tr' project_id
                              = Some (CalledProcessError err))"
  show "dayone_main client stdin [] =
              (EndOfScript, [ListBillingAccounts, GcloudServicesEnable project_id])"
    by (rule main_no_retry(1) [OF project first active failing])
next
  assume failing: "\<forall>tr'. gcloud_services_enable client tr' project_id = Some FileNotFoundError
                  \<or> (\<exists>err. gcloud_services_enable client tr' project_id
                              = Some (CalledProcessError err))"
     and off: "\<not> fst (fst (check_current_billing client project_id []))"
  show "daytwo_main client stdin [] =
                   (Return 1,
                    [GetProjectBillingInfo (project_resource project_id),
                     ListBillingAccounts, GcloudServicesEnable project_id])"
    by (rule main_no_retry(2) [OF project first active failing off])
qed


theorem retry_delays_of_main_witness:
  "dayone_main late_api_client [] [] =
     (EndOfScript,
      [ListBillingAccounts, GcloudServicesEnable ''my-project'',
       Sleep 15, ListBillingAccounts, Sleep (45 / 2), ListBillingAccounts,
       Sleep (135 / 4), ListBillingAccounts])
   \<and> daytwo_main late_api_client [] [] =
     (Return 1,
      [GetProjectBillingInfo (project_resource ''my-project''),
       ListBillingAccounts, GcloudServicesEnable ''my-project'',
       Sleep 15, ListBillingAccounts, Sleep 22, ListBillingAccounts,
       Sleep 33, ListBillingAccounts])"
proof -
  have project: "get_project_id late_api_client = Inr ''my-project''"
    by (simp add: get_project_id_def late_api_client_def base_client_def strip_def is_space_def)
  have found: "str_contains ''api has not been used''
     (str_lower ''Cloud Billing API has not been used in project 42 before or it is disabled.'')"
    by code_simp
  have active: "\<forall>tr'. api_propagating late_api_client tr'
                  \<longleftrightarrow> count_list tr' ListBillingAccounts < 3"
    using found by (simp add: api_propagating_def late_api_client_def base_client_def)
  have final: "\<forall>tr'. \<not> api_propagating late_api_client tr' \<longrightarrow>
                    (\<exists>e. list_billing_accounts late_api_client tr' = Inl e)
                    \<or> (\<exists>accounts. list_billing_accounts late_api_client tr' = Inr accounts
                          \<and> accounts \<noteq> [] \<and> filter is_open accounts = [])"
    unfolding active by (simp add: late_api_client_def base_client_def)
  have enabled: "\<forall>tr'. gcloud_services_enable late_api_client tr' ''my-project'' = None"
    by (simp add: late_api_client_def base_client_def)
  have off: "\<not> fst (fst (check_current_billing late_api_client ''my-project'' []))"
    by (simp add: check_current_billing_def late_api_client_def base_client_def)
  have three: "1 \<le> (3::nat)" by simp
  have "dayone_main late_api_client [] [] =
          (EndOfScript,
           [ListBillingAccounts, GcloudServicesEnable ''my-project'']
           @ concat (map (\<lambda>d. [Sleep d, ListBillingAccounts])
                       (take 3 [15, 45 / 2, 135 / 4, 405 / 8, 1215 / 16])))
        \<and> daytwo_main late_api_client [] [] =
          (Return 1,
           [GetProjectBillingInfo (project_resource ''my-project''),
            ListBillingAccounts, GcloudServicesEnable ''my-project'']
           @ concat (map (\<lambda>d. [Sleep d, ListBillingAccounts])
                       (take 3 [15, 22, 33, 49, 73])))"
    using retry_delays_of_main [OF project three active, of "[]", unfolded Let_def]
          enabled off final
    by blast
  then show ?thesis
    by (simp add: take_3_dayone take_3_daytwo)
qed

section \<open>Exit codes\<close>

text \<open>
  Claim C7, as stated, fails for day one: the script never calls \<open>sys.exit\<close>. When the
  project id file is missing it prints its error and reaches its end, so the process
  exits with status 0, not 1.
\<close>

theorem dayone_exit_code_counterexample:
  "project_file missing_file_client = FileMissing
   \<and> dayone_main missing_file_client [] [] = (EndOfScript, [])
   \<and> exit_code (fst (dayone_main missing_file_client [] [])) = 0"
  by (simp add: missing_file_client_def base_client_def dayone_main_def
        get_project_id_from_file_def)

text \<open>
  Claim C7, amended. Day two: the exit code is always 0 or 1. It is 1 when the project
  id file is missing, unreadable or blank; it is 0 when billing is already enabled;
  for a run from the start it is 0 exactly when billing was already enabled or an
  update of the project's billing info was accepted. With billing not enabled it is 1
  when the API never becomes active, when every listing fails with a true permission
  denial or an unexpected error, and when the listings show no open account (or no
  account at all). Day one has no exit call: it reaches its end, status 0, unless an
  exception escapes, and it reaches its end in each of those conditions too.
\<close>

theorem exit_codes:
  "exit_code (fst (daytwo_main client stdin tr)) \<in> {0, 1}
   \<and> (fst (dayone_main client stdin tr) = EndOfScript
        \<or> (\<exists>e. fst (dayone_main client stdin tr) = Uncaught e))
   \<and> ((project_file client = FileMissing \<or> (\<exists>e. project_file client = FileError e)
         \<or> (\<exists>text. project_file client = FileContent text \<and> strip text = [])) \<longrightarrow>
        daytwo_main client stdin tr = (SysExit 1, tr)
        \<and> dayone_main client stdin tr = (EndOfScript, tr))
   \<and> (\<forall>project_id. get_project_id client = Inr project_id \<longrightarrow>
        (fst (fst (check_current_billing client project_id tr)) \<longrightarrow>
           fst (daytwo_main client stdin tr) = Return 0)
        \<and> (exit_code (fst (daytwo_main client stdin [])) = 0
             \<longleftrightarrow> fst (fst (check_current_billing client project_id []))
                 \<or> link_accepted (snd (daytwo_main client stdin [])))
        \<and> (\<not> fst (fst (check_current_billing client project_id tr)) \<longrightarrow>
             ((\<forall>tr'. api_propagating client tr') \<longrightarrow>
                exit_code (fst (daytwo_main client stdin tr)) = 1)
             \<and> ((\<forall>tr'. (\<exists>e. list_billing_accounts client tr' = Inl e)
                        \<and> \<not> api_propagating client tr') \<longrightarrow>
                  fst (daytwo_main client stdin tr) = Return 1)
             \<and> ((\<forall>tr'. \<exists>accounts. list_billing_accounts client tr' = Inr accounts
                                  \<and> filter is_open accounts = []) \<longrightarrow>
                  fst (daytwo_main client stdin tr) = Return 1))
        \<and> ((\<forall>tr'. api_propagating client tr')
             \<and> (\<forall>tr'. gcloud_services_enable client tr' project_id = None) \<longrightarrow>
             fst (dayone_main client stdin tr) = EndOfScript)
        \<and> ((\<forall>tr'. (\<exists>e. list_billing_accounts client tr' = Inl e)
                   \<and> \<not> api_propagating client tr') \<longrightarrow>
             fst (dayone_main client stdin tr) = EndOfScript)
        \<and> ((\<forall>tr'. \<exists>accounts. list_billing_accounts client tr' = Inr accounts
                             \<and> filter is_open accounts = []) \<longrightarrow>
             fst (dayone_main client stdin tr) = EndOfScript))"
proof (intro conjI allI impI)
  show "exit_code (fst (daytwo_main client stdin tr)) \<in> {0, 1}"
    by (rule daytwo_main_codes)
  show "fst (dayone_main client stdin tr) = EndOfScript
        \<or> (\<exists>e. fst (dayone_main client stdin tr) = Uncaught e)"
    by (rule dayone_main_outcomes)
next
  assume missing: "project_file client = FileMissing \<or> (\<exists>e. project_file client = FileError e)
         \<or> (\<exists>text. project_file client = FileContent text \<and> strip text = [])"
  then have two: "get_project_id client = Inl 1"
    and one: "get_project_id_from_file client = None"
    by (auto simp: get_project_id_def get_project_id_from_file_def)
  show "daytwo_main client stdin tr = (SysExit 1, tr)"
    using two by (simp add: daytwo_main_def)
  show "dayone_main client stdin tr = (EndOfScript, tr)"
    using one by (rule dayone_main_no_project_id)
next
  fix project_id
  assume project: "get_project_id client = Inr project_id"
  then have from_file: "get_project_id_from_file client = Some project_id"
    using project_id_cases [of client] by auto
  show "exit_code (fst (daytwo_main client stdin [])) = 0
             \<longleftrightarrow> fst (fst (check_current_billing client project_id []))
                 \<or> link_accepted (snd (daytwo_main client stdin []))"
    using project by (rule daytwo_main_success)
  {
    assume "fst (fst (check_current_billing client project_id tr))"
    then show "fst (daytwo_main client stdin tr) = Return 0"
      using project by (simp add: daytwo_main_def split_beta)
  }
  {
    assume off: "\<not> fst (fst (check_current_billing client project_id tr))"
    note main = daytwo_main_not_enabled [OF project off]
    {
      assume "\<forall>tr'. api_propagating client tr'"
      then show "exit_code (fst (daytwo_main client stdin tr)) = 1"
        unfolding main by (rule daytwo_search_never_active)
    }
    {
      assume "\<forall>tr'. (\<exists>e. list_billing_accounts client tr' = Inl e)
                        \<and> \<not> api_propagating client tr'"
      then show "fst (daytwo_main client stdin tr) = Return 1"
        unfolding main by (rule daytwo_search_denied)
    }
    {
      assume "\<forall>tr'. \<exists>accounts. list_billing_accounts client tr' = Inr accounts
                                  \<and> filter is_open accounts = []"
      then show "fst (daytwo_main client stdin tr) = Return 1"
        unfolding main by (rule daytwo_search_none_open)
    }
  }
  {
    assume "(\<forall>tr'. api_propagating client tr')
             \<and> (\<forall>tr'. gcloud_services_enable client tr' project_id = None)"
    then show "fst (dayone_main client stdin tr) = EndOfScript"
      using dayone_main_never_active [OF from_file] by blast
  }
  {
    assume "\<forall>tr'. (\<exists>e. list_billing_accounts client tr' = Inl e)
                   \<and> \<not> api_propagating client tr'"
    then show "fst (dayone_main client stdin tr) = EndOfScript"
      by (rule dayone_main_denied [OF from_file])
  }
  {
    assume "\<forall>tr'. \<exists>accounts. list_billing_accounts client tr' = Inr accounts
                             \<and> filter is_open accounts = []"
    then show "fst (dayone_main client stdin tr) = EndOfScript"
      by (rule dayone_main_none_open [OF from_file])
  }
qed


theorem exit_codes_witness:
  "daytwo_main missing_file_client [] [] = (SysExit 1, [])
   \<and> dayone_main missing_file_client [] [] = (EndOfScript, [])
   \<and> fst (daytwo_main already_linked_client [] []) = Return 0
   \<and> exit_code (fst (daytwo_main disabled_api_client [] [])) = 1
   \<and> fst (dayone_main disabled_api_client [] []) = EndOfScript"
proof -
  have missing: "project_file missing_file_client = FileMissing"
    by (simp add: missing_file_client_def base_client_def)
  have linked: "get_project_id already_linked_client = Inr ''my-project''"
    by (simp add: get_project_id_def already_linked_client_def base_client_def strip_def
          is_space_def)
  have enabled: "fst (fst (check_current_billing already_linked_client ''my-project'' []))"
    by (simp add: check_current_billing_def already_linked_client_def base_client_def pbi_def)
  have project: "get_project_id disabled_api_client = Inr ''my-project''"
    by (simp add: get_project_id_def disabled_api_client_def base_client_def strip_def
          is_space_def)
  have off: "\<not> fst (fst (check_current_billing disabled_api_client ''my-project'' []))"
    by (simp add: check_current_billing_def disabled_api_client_def base_client_def)
  have found: "str_contains ''api has not been used''
     (str_lower ''Cloud Billing API has not been used in project 42 before or it is disabled.'')"
    by code_simp
  have never: "\<forall>tr'. api_propagating disabled_api_client tr'"
    using found by (simp add: api_propagating_def disabled_api_client_def base_client_def)
  have gcloud: "\<forall>tr'. gcloud_services_enable disabled_api_client tr' ''my-project'' = None"
    by (simp add: disabled_api_client_def base_client_def)
  show ?thesis
    using exit_codes [of missing_file_client "[]" "[]"] missing
          exit_codes [of already_linked_client "[]" "[]"] linked enabled
          exit_codes [of disabled_api_client "[]" "[]"] project off never gcloud
    by simp
qed

end
